theory Spec2Isabelle
  imports Main "HOL-Library.Product_Lexorder" "HOL-Library.Multiset"
begin

section \<open>Python strings\<close>

text \<open>
  A Python \<open>str\<close> is a sequence of code points. It is modelled as a \<open>string\<close> whose
  characters are the code points below 256, one \<open>char\<close> per code point. The helpers
  below are the \<open>str\<close> methods and builtins the repository calls, on that range.
\<close>

definition apos :: char where
  "apos = CHR 0x27"

text \<open>\<open>str.isspace\<close> for one character: the white space that \<open>str.strip()\<close> and \<open>int()\<close> remove.\<close>

definition is_space :: "char \<Rightarrow> bool" where
  "is_space c = (c \<in> set [CHR 0x09, CHR 0x0A, CHR 0x0B, CHR 0x0C, CHR 0x0D,
                           CHR 0x1C, CHR 0x1D, CHR 0x1E, CHR 0x1F, CHR 0x20,
                           CHR 0x85, CHR 0xA0])"

text \<open>\<open>s.strip(chars)\<close>: drop the leading and the trailing characters that satisfy \<open>P\<close>.\<close>

definition strip_chars :: "(char \<Rightarrow> bool) \<Rightarrow> string \<Rightarrow> string" where
  "strip_chars P s = rev (dropWhile P (rev (dropWhile P s)))"

definition py_strip :: "string \<Rightarrow> string" where
  "py_strip s = strip_chars is_space s"

text \<open>\<open>s.split(sep)\<close> for a one-character separator: never empty, keeps empty fields.\<close>

fun split_on :: "char \<Rightarrow> string \<Rightarrow> string list" where
  "split_on sep [] = [[]]"
| "split_on sep (c # cs) =
     (if c = sep then [] # split_on sep cs
      else (case split_on sep cs of [] \<Rightarrow> [[c]] | p # ps \<Rightarrow> (c # p) # ps))"

text \<open>\<open>s.startswith(p)\<close>.\<close>

definition startswith :: "string \<Rightarrow> string \<Rightarrow> bool" where
  "startswith s p = (take (length p) s = p)"

text \<open>\<open>sub in s\<close> for strings: \<open>sub\<close> occurs in \<open>s\<close> as a contiguous run.\<close>

fun py_in :: "string \<Rightarrow> string \<Rightarrow> bool" where
  "py_in sub [] = (sub = [])"
| "py_in sub (c # cs) = (startswith (c # cs) sub \<or> py_in sub cs)"

text \<open>
  \<open>int(s)\<close> in base 10: white space around the number is ignored, then an optional
  sign, then decimal digits, where a single underscore may stand between two digits.
  \<open>None\<close> is the \<open>ValueError\<close>. The interpreter also refuses a number of more than
  4300 digits (its default limit on conversions). The white space that \<open>int\<close> skips is
  narrower than that of \<open>str.strip()\<close>: the separators \<open>0x1C\<close> to \<open>0x1F\<close> are not
  part of it.
\<close>

definition is_int_space :: "char \<Rightarrow> bool" where
  "is_int_space c = (c \<in> set [CHR 0x09, CHR 0x0A, CHR 0x0B, CHR 0x0C, CHR 0x0D, CHR 0x20,
                               CHR 0x85, CHR 0xA0])"

definition digit_val :: "char \<Rightarrow> nat option" where
  "digit_val c = map_of [(CHR ''0'', 0), (CHR ''1'', 1), (CHR ''2'', 2), (CHR ''3'', 3),
                         (CHR ''4'', 4), (CHR ''5'', 5), (CHR ''6'', 6), (CHR ''7'', 7),
                         (CHR ''8'', 8), (CHR ''9'', 9)] c"

fun parse_digits :: "nat \<Rightarrow> string \<Rightarrow> nat option" where
  "parse_digits acc [] = Some acc"
| "parse_digits acc [c] =
     (case digit_val c of None \<Rightarrow> None | Some v \<Rightarrow> Some (10 * acc + v))"
| "parse_digits acc (c # d # ds) =
     (if c = CHR ''_'' then
        (case digit_val d of None \<Rightarrow> None | Some v \<Rightarrow> parse_digits (10 * acc + v) ds)
      else
        (case digit_val c of None \<Rightarrow> None | Some v \<Rightarrow> parse_digits (10 * acc + v) (d # ds)))"

definition int_max_str_digits :: nat where
  "int_max_str_digits = 4300"

definition parse_unsigned :: "string \<Rightarrow> nat option" where
  "parse_unsigned s =
     (case s of
        [] \<Rightarrow> None
      | c # cs \<Rightarrow>
          (case digit_val c of
             None \<Rightarrow> None
           | Some v \<Rightarrow>
               if int_max_str_digits < length (filter (\<lambda>x. digit_val x \<noteq> None) s) then None
               else parse_digits v cs))"

definition py_int :: "string \<Rightarrow> int option" where
  "py_int s =
     (case strip_chars is_int_space s of
        [] \<Rightarrow> None
      | c # cs \<Rightarrow>
          if c = CHR ''-'' then map_option (\<lambda>n. - int n) (parse_unsigned cs)
          else if c = CHR ''+'' then map_option int (parse_unsigned cs)
          else map_option int (parse_unsigned (c # cs)))"

text \<open>\<open>str(n)\<close> for an integer: decimal digits, a minus sign for a negative number.\<close>

definition digit_char :: "nat \<Rightarrow> char" where
  "digit_char d = ''0123456789'' ! (d mod 10)"

fun str_nat :: "nat \<Rightarrow> string" where
  "str_nat n = (if n < 10 then [digit_char n] else str_nat (n div 10) @ [digit_char n])"

declare str_nat.simps [simp del]

definition py_str :: "int \<Rightarrow> string" where
  "py_str i = (if i < 0 then CHR ''-'' # str_nat (nat (- i)) else str_nat (nat i))"


section \<open>Keyword extraction (echomindr_api.py)\<close>

text \<open>
  \<open>str.lower()\<close> on one character. Below 256 the upper-case letters are \<open>A\<close> to \<open>Z\<close>
  and the accented capitals \<open>0xC0\<close> to \<open>0xDE\<close> (without the multiplication sign
  \<open>0xD7\<close>); each has its lower-case letter 32 places further on.
\<close>

definition upper_chars :: "char list" where
  "upper_chars = ''ABCDEFGHIJKLMNOPQRSTUVWXYZ'' @ [
     CHR 0xC0, CHR 0xC1, CHR 0xC2, CHR 0xC3, CHR 0xC4, CHR 0xC5, CHR 0xC6, CHR 0xC7,
     CHR 0xC8, CHR 0xC9, CHR 0xCA, CHR 0xCB, CHR 0xCC, CHR 0xCD, CHR 0xCE, CHR 0xCF,
     CHR 0xD0, CHR 0xD1, CHR 0xD2, CHR 0xD3, CHR 0xD4, CHR 0xD5, CHR 0xD6, CHR 0xD8,
     CHR 0xD9, CHR 0xDA, CHR 0xDB, CHR 0xDC, CHR 0xDD, CHR 0xDE]"

definition lower_chars :: "char list" where
  "lower_chars = ''abcdefghijklmnopqrstuvwxyz'' @ [
     CHR 0xE0, CHR 0xE1, CHR 0xE2, CHR 0xE3, CHR 0xE4, CHR 0xE5, CHR 0xE6, CHR 0xE7,
     CHR 0xE8, CHR 0xE9, CHR 0xEA, CHR 0xEB, CHR 0xEC, CHR 0xED, CHR 0xEE, CHR 0xEF,
     CHR 0xF0, CHR 0xF1, CHR 0xF2, CHR 0xF3, CHR 0xF4, CHR 0xF5, CHR 0xF6, CHR 0xF8,
     CHR 0xF9, CHR 0xFA, CHR 0xFB, CHR 0xFC, CHR 0xFD, CHR 0xFE]"

definition lower_char :: "char \<Rightarrow> char" where
  "lower_char c = (case map_of (zip upper_chars lower_chars) c of None \<Rightarrow> c | Some l \<Rightarrow> l)"

definition py_lower :: "string \<Rightarrow> string" where
  "py_lower s = map lower_char s"

text \<open>The character class \<open>[a-zA-Z']\<close> of the regular expression.\<close>

definition is_word_char :: "char \<Rightarrow> bool" where
  "is_word_char c =
     (c \<in> set ''abcdefghijklmnopqrstuvwxyzABCDEFGHIJKLMNOPQRSTUVWXYZ'' \<or> c = apos)"

text \<open>
  \<open>re.findall(r"[a-zA-Z']{3,}", s)\<close>: the quantifier is greedy, so the matches are the
  maximal runs of class characters, left to right, that are at least three long.
  \<open>findall_from run s\<close> scans \<open>s\<close> with the current run held in reverse.
\<close>

definition emit :: "string \<Rightarrow> string list" where
  "emit run = (if 3 \<le> length run then [rev run] else [])"

fun findall_from :: "string \<Rightarrow> string \<Rightarrow> string list" where
  "findall_from run [] = emit run"
| "findall_from run (c # cs) =
     (if is_word_char c then findall_from (c # run) cs
      else emit run @ findall_from [] cs)"

definition findall :: "string \<Rightarrow> string list" where
  "findall s = findall_from [] s"

definition STOPWORDS :: "string set" where
  "STOPWORDS = set [
    ''i'', ''im'', ''my'', ''me'', ''we'', ''our'', ''a'', ''an'', ''the'', ''is'', ''are'',
    ''was'', ''were'', ''be'', ''been'', ''being'', ''have'', ''has'', ''had'', ''do'',
    ''does'', ''did'', ''will'', ''would'', ''could'', ''should'', ''may'', ''might'',
    ''shall'', ''can'', ''need'', ''dare'', ''ought'', ''used'', ''to'', ''of'', ''in'',
    ''for'', ''on'', ''with'', ''at'', ''by'', ''from'', ''as'', ''into'', ''through'',
    ''during'', ''before'', ''after'', ''above'', ''below'', ''between'', ''out'',
    ''off'', ''over'', ''under'', ''again'', ''further'', ''then'', ''once'', ''here'',
    ''there'', ''when'', ''where'', ''why'', ''how'', ''all'', ''both'', ''each'',
    ''few'', ''more'', ''most'', ''other'', ''some'', ''such'', ''no'', ''nor'', ''not'',
    ''only'', ''own'', ''same'', ''so'', ''than'', ''too'', ''very'', ''just'', ''don'',
    ''dont'', ''t'', ''s'', ''and'', ''but'', ''or'', ''if'', ''about'', ''it'', ''its'',
    ''that'', ''this'', ''what'', ''which'', ''who'', ''whom'', ''these'', ''those'',
    ''am'', ''been'', ''having'', ''doing'', ''because'', ''until'', ''while'',
    ''up'', ''down'', ''whether'', ''considering'', ''sure'', ''really'', ''think'',
    ''know'', ''like'', ''want'', ''get'', ''got'', ''going'', ''after'']"

text \<open>The loop that removes duplicates: \<open>seen\<close> is the set, \<open>unique\<close> the list built so far.\<close>

fun dedupe :: "string set \<Rightarrow> string list \<Rightarrow> string list \<Rightarrow> string list" where
  "dedupe seen unique [] = unique"
| "dedupe seen unique (kw # kws) =
     (if kw \<notin> seen then dedupe (insert kw seen) (unique @ [kw]) kws
      else dedupe seen unique kws)"

text \<open>
  \<open>extract_keywords\<close>: the words are filtered first (stopword test and length test on
  the word as matched), and the apostrophes are stripped from the words that remain.
\<close>

definition extract_keywords :: "string \<Rightarrow> string list" where
  "extract_keywords text =
     (let words = findall (py_lower text);
          keywords = map (strip_chars (\<lambda>c. c = apos))
                         (filter (\<lambda>w. w \<notin> STOPWORDS \<and> 3 \<le> length w) words)
      in dedupe {} [] keywords)"

text \<open>\<open>sep.join(xs)\<close>.\<close>

fun py_join :: "string \<Rightarrow> string list \<Rightarrow> string" where
  "py_join sep [] = []"
| "py_join sep [x] = x"
| "py_join sep (x # y # ys) = x @ sep @ py_join sep (y # ys)"


section \<open>Ingestion: timestamps and URLs (echomindr_build_db.py)\<close>

text \<open>
  \<open>parse_timestamp_to_seconds\<close>: an empty timestamp gives \<open>None\<close>; otherwise the stripped
  text is split at the colons and every part is converted with \<open>int\<close>. A part that is
  not a number raises \<open>ValueError\<close>, which the function catches, and falls through to
  \<open>return None\<close>, as does any number of parts other than two or three.
\<close>

definition parse_timestamp_to_seconds :: "string \<Rightarrow> int option" where
  "parse_timestamp_to_seconds ts =
     (if ts = [] then None
      else
        (case those (map py_int (split_on CHR '':'' (py_strip ts))) of
           None \<Rightarrow> None
         | Some parts \<Rightarrow>
             (case parts of
                [m, s] \<Rightarrow> Some (m * 60 + s)
              | [h, m, s] \<Rightarrow> Some (h * 3600 + m * 60 + s)
              | _ \<Rightarrow> None)))"

text \<open>
  \<open>build_url_at_moment\<close>: \<open>None\<close> unless the base URL is a YouTube watch URL; the base
  URL itself when the timestamp does not parse; otherwise the base URL with the
  offset in seconds appended as the parameter \<open>t\<close>.
\<close>

definition build_url_at_moment :: "string \<Rightarrow> string \<Rightarrow> string option" where
  "build_url_at_moment base_url timestamp =
     (if base_url = [] \<or> \<not> startswith base_url ''https://www.youtube.com/watch?v='' then None
      else
        (case parse_timestamp_to_seconds timestamp of
           None \<Rightarrow> Some base_url
         | Some seconds \<Rightarrow>
             (let sep = (if CHR ''?'' \<in> set base_url then ''&'' else ''?'')
              in Some (base_url @ sep @ ''t='' @ py_str seconds @ ''s''))))"


section \<open>The store\<close>

text \<open>
  The \<open>json\<close> module and the conversions of Python values are library code. They are
  parameters of the model: \<open>'v\<close> is the type of decoded JSON values and \<open>'t\<close> the type
  of the members of a Python set.
  \<^item> \<open>json_loads\<close> is \<open>json.loads\<close>, with \<open>None\<close> when it raises;
  \<^item> \<open>json_dumps\<close> is \<open>json.dumps(_, ensure_ascii=False)\<close>;
  \<^item> \<open>py_bool\<close> is the truth value of a decoded value (\<open>if v\<close>, \<open>v or _\<close>);
  \<^item> \<open>py_set\<close> lists the members of \<open>set(v)\<close>, with \<open>None\<close> when \<open>set\<close> raises
    \<open>TypeError\<close> (the value is not iterable, or a member is not hashable).
\<close>

record ('v, 't) json_lib =
  json_loads :: "string \<Rightarrow> 'v option"
  json_dumps :: "'v \<Rightarrow> string"
  py_bool :: "'v \<Rightarrow> bool"
  py_set :: "'v \<Rightarrow> 't list option"

text \<open>
  One row of the table \<open>moments\<close> (\<open>CREATE_MOMENTS\<close>); \<open>None\<close> is SQL \<open>NULL\<close>. The column
  \<open>created_at\<close> is filled by the database and never read.
\<close>

record row =
  col_id :: string
  col_type :: string
  col_timestamp :: "string option"
  col_summary :: string
  col_quote :: "string option"
  col_decision :: "string option"
  col_outcome :: "string option"
  col_lesson :: "string option"
  col_stage :: "string option"
  col_situation :: "string option"
  col_tags :: "string option"
  col_podcast :: "string option"
  col_episode :: "string option"
  col_guest :: "string option"
  col_episode_date :: "string option"
  col_source_url :: "string option"
  col_url_at_moment :: "string option"


section \<open>Ingestion: merging and building (echomindr_build_db.py)\<close>

text \<open>
  A dictionary read from a JSON file is a map from keys to values. The source applies
  string operations to the values it reads (\<open>startswith\<close>, \<open>in\<close>), so the values are
  strings here; a key that is absent is \<open>None\<close>.
\<close>

type_synonym dict = "string \<rightharpoonup> string"

text \<open>\<open>d.get(k, default)\<close> and \<open>d.get(k) or other\<close>.\<close>

definition dict_get :: "dict \<Rightarrow> string \<Rightarrow> string \<Rightarrow> string" where
  "dict_get d k dflt = (case d k of None \<Rightarrow> dflt | Some v \<Rightarrow> v)"

definition py_or :: "string option \<Rightarrow> string \<Rightarrow> string" where
  "py_or a b = (case a of None \<Rightarrow> b | Some v \<Rightarrow> if v = [] then b else v)"

text \<open>
  A moment as it stands in a source file. \<open>rm_context\<close> is used by \<open>build_db\<close>, while
  \<open>rm_id\<close>, \<open>rm_stage\<close> and \<open>rm_situation\<close> are the top-level keys that \<open>build_sample_db\<close>
  reads.
\<close>

record 'v raw_moment =
  rm_id :: "string option"
  rm_type :: "string option"
  rm_timestamp :: "string option"
  rm_summary :: "string option"
  rm_quote :: "string option"
  rm_decision :: "string option"
  rm_outcome :: "string option"
  rm_lesson :: "string option"
  rm_stage :: "string option"
  rm_situation :: "string option"
  rm_context :: "dict option"
  rm_tags :: "'v option"
  rm_source :: "dict option"

record resolved_source =
  rs_podcast :: string
  rs_episode :: string
  rs_guest :: string
  rs_date :: string
  rs_url :: string

text \<open>\<open>moment.get(key) or {}\<close>.\<close>

definition dict_or_empty :: "dict option \<Rightarrow> dict" where
  "dict_or_empty d = (case d of None \<Rightarrow> Map.empty | Some m \<Rightarrow> m)"

definition resolve_source :: "'v raw_moment \<Rightarrow> dict \<Rightarrow> resolved_source" where
  "resolve_source moment meta =
     (let src = dict_or_empty (rm_source moment);
          url = py_or (meta ''url'') (dict_get src ''url'' []);
          url = (if startswith url ''ytsearch1:'' then [] else url);
          guest = py_or (meta ''guest'') (dict_get src ''guest'' []);
          guest = (if py_in ''TODO'' guest then dict_get src ''guest'' [] else guest);
          guest = (if py_in ''TODO'' guest then [] else guest)
      in \<lparr> rs_podcast = py_or (meta ''podcast'') (dict_get src ''podcast'' []),
           rs_episode = py_or (meta ''episode'') (dict_get src ''episode'' []),
           rs_guest = guest,
           rs_date = py_or (meta ''date'') (dict_get src ''date'' []),
           rs_url = url \<rparr>)"

text \<open>\<open>json.dumps(moment.get("tags") or [], ensure_ascii=False)\<close>.\<close>

definition dump_tags :: "('v, 't) json_lib \<Rightarrow> 'v option \<Rightarrow> string" where
  "dump_tags J tags =
     (case tags of
        None \<Rightarrow> ''[]''
      | Some v \<Rightarrow> if py_bool J v then json_dumps J v else ''[]'')"

definition opt_get :: "string option \<Rightarrow> string \<Rightarrow> string" where
  "opt_get v dflt = (case v of None \<Rightarrow> dflt | Some s \<Rightarrow> s)"

text \<open>
  The state of a build: the rows inserted so far, the number of identifiers drawn from
  \<open>uuid.uuid4()\<close>, and the two counters of the statistics that steer the loop. The
  generator is a parameter \<open>uuid4\<close>: its \<open>k\<close>-th call returns \<open>uuid4 k\<close>.
\<close>

record build_state =
  bs_rows :: "row list"
  bs_uuids :: nat
  bs_total :: nat
  bs_skipped_files :: nat

definition empty_db :: build_state where
  "empty_db = \<lparr> bs_rows = [], bs_uuids = 0, bs_total = 0, bs_skipped_files = 0 \<rparr>"

text \<open>The body of the loop over the moments of one episode in \<open>build_db\<close>.\<close>

definition insert_moment ::
  "('v, 't) json_lib \<Rightarrow> (nat \<Rightarrow> string) \<Rightarrow> dict \<Rightarrow> build_state \<Rightarrow> 'v raw_moment \<Rightarrow> build_state"
where
  "insert_moment J uuid4 meta st moment =
     (let src = resolve_source moment meta;
          ts = opt_get (rm_timestamp moment) [];
          url_at = build_url_at_moment (rs_url src) ts;
          context = dict_or_empty (rm_context moment);
          tags_str = dump_tags J (rm_tags moment);
          moment_id = uuid4 (bs_uuids st);
          new_row = \<lparr> col_id = moment_id,
                    col_type = opt_get (rm_type moment) ''unknown'',
                    col_timestamp = Some ts,
                    col_summary = opt_get (rm_summary moment) [],
                    col_quote = rm_quote moment,
                    col_decision = rm_decision moment,
                    col_outcome = rm_outcome moment,
                    col_lesson = rm_lesson moment,
                    col_stage = context ''stage'',
                    col_situation = context ''situation'',
                    col_tags = Some tags_str,
                    col_podcast = Some (rs_podcast src),
                    col_episode = Some (rs_episode src),
                    col_guest = Some (rs_guest src),
                    col_episode_date = Some (rs_date src),
                    col_source_url = Some (rs_url src),
                    col_url_at_moment = url_at \<rparr>
      in st \<lparr> bs_rows := bs_rows st @ [new_row],
              bs_uuids := Suc (bs_uuids st),
              bs_total := Suc (bs_total st) \<rparr>)"

text \<open>
  What \<open>build_db\<close> finds in an episode directory: no \<open>moments.json\<close>, one that does not
  parse, or the list under its key \<open>moments\<close>; and the result of \<open>load_meta\<close>, which is
  the empty dictionary when \<open>meta.json\<close> is missing or unreadable.
\<close>

datatype 'a moments_file = Missing | Unparseable | Parsed 'a

record 'v episode =
  ep_moments :: "'v raw_moment list moments_file"
  ep_meta :: dict

definition build_episode ::
  "('v, 't) json_lib \<Rightarrow> (nat \<Rightarrow> string) \<Rightarrow> build_state \<Rightarrow> 'v episode \<Rightarrow> build_state"
where
  "build_episode J uuid4 st ep =
     (case ep_moments ep of
        Missing \<Rightarrow> st
      | Unparseable \<Rightarrow> st \<lparr> bs_skipped_files := Suc (bs_skipped_files st) \<rparr>
      | Parsed moments \<Rightarrow>
          if moments = [] then st \<lparr> bs_skipped_files := Suc (bs_skipped_files st) \<rparr>
          else foldl (insert_moment J uuid4 (ep_meta ep)) st moments)"

definition build_db ::
  "('v, 't) json_lib \<Rightarrow> (nat \<Rightarrow> string) \<Rightarrow> 'v episode list \<Rightarrow> build_state"
where
  "build_db J uuid4 episode_dirs = foldl (build_episode J uuid4) empty_db episode_dirs"

text \<open>
  The body of the loop of \<open>build_sample_db\<close>. The identifier is \<open>m.get("id") or
  str(uuid.uuid4())\<close>: the generator is called only when the moment has no identifier of
  its own.
\<close>

definition insert_sample ::
  "('v, 't) json_lib \<Rightarrow> (nat \<Rightarrow> string) \<Rightarrow> build_state \<Rightarrow> 'v raw_moment \<Rightarrow> build_state"
where
  "insert_sample J uuid4 st m =
     (let src = dict_or_empty (rm_source m);
          tags_str = dump_tags J (rm_tags m);
          ts = opt_get (rm_timestamp m) [];
          url_at = build_url_at_moment (dict_get src ''url'' []) ts;
          own_id = (case rm_id m of None \<Rightarrow> False | Some i \<Rightarrow> i \<noteq> []);
          moment_id = (if own_id then opt_get (rm_id m) [] else uuid4 (bs_uuids st));
          new_row = \<lparr> col_id = moment_id,
                    col_type = opt_get (rm_type m) ''unknown'',
                    col_timestamp = Some ts,
                    col_summary = opt_get (rm_summary m) [],
                    col_quote = rm_quote m,
                    col_decision = rm_decision m,
                    col_outcome = rm_outcome m,
                    col_lesson = rm_lesson m,
                    col_stage = rm_stage m,
                    col_situation = rm_situation m,
                    col_tags = Some tags_str,
                    col_podcast = src ''podcast'',
                    col_episode = src ''episode'',
                    col_guest = src ''guest'',
                    col_episode_date = src ''date'',
                    col_source_url = src ''url'',
                    col_url_at_moment = url_at \<rparr>
      in st \<lparr> bs_rows := bs_rows st @ [new_row],
              bs_uuids := (if own_id then bs_uuids st else Suc (bs_uuids st)),
              bs_total := Suc (bs_total st) \<rparr>)"

definition build_sample_db ::
  "('v, 't) json_lib \<Rightarrow> (nat \<Rightarrow> string) \<Rightarrow> 'v raw_moment list \<Rightarrow> build_state"
where
  "build_sample_db J uuid4 moments = foldl (insert_sample J uuid4) empty_db moments"


section \<open>The REST API (echomindr_api.py)\<close>

text \<open>
  What a request can end in besides a response: an \<open>HTTPException\<close> raised by the
  handler with its status code, the rejection of a parameter by the bounds declared
  for it (\<open>Query(ge=1, le=20)\<close>, \<open>Field(ge=1, le=20)\<close>; status 422), or an exception
  that no handler catches (status 500). Writing the request log runs on its own thread
  and has no part in the response, so it is left out.
\<close>

datatype error = HTTPException nat | RequestValidationError | ServerError

record source =
  src_podcast :: "string option"
  src_episode :: "string option"
  src_guest :: "string option"
  src_date :: "string option"
  src_url :: "string option"
  src_url_at_moment :: "string option"

text \<open>
  The dictionary built by \<open>format_moment\<close>. In \<open>m_tags\<close>, \<open>None\<close> is the empty list that
  stands for a tag column that is \<open>NULL\<close> or empty, and \<open>Some v\<close> the decoded column.
\<close>

record 'v moment =
  m_id :: string
  m_type :: string
  m_timestamp :: "string option"
  m_summary :: string
  m_quote :: "string option"
  m_decision :: "string option"
  m_outcome :: "string option"
  m_lesson :: "string option"
  m_stage :: "string option"
  m_situation :: "string option"
  m_tags :: "'v option"
  m_source :: source

text \<open>
  \<open>json.loads(row["tags"]) if row["tags"] else []\<close>: the outer \<open>None\<close> is the exception
  of \<open>json.loads\<close>, the inner \<open>None\<close> the literal empty list.
\<close>

definition load_tags :: "('v, 't) json_lib \<Rightarrow> string option \<Rightarrow> 'v option option" where
  "load_tags J tags =
     (case tags of
        None \<Rightarrow> Some None
      | Some s \<Rightarrow> if s = [] then Some None else map_option Some (json_loads J s))"

definition format_moment :: "('v, 't) json_lib \<Rightarrow> row \<Rightarrow> 'v moment option" where
  "format_moment J r =
     (case load_tags J (col_tags r) of
        None \<Rightarrow> None
      | Some tags \<Rightarrow>
          Some \<lparr> m_id = col_id r,
                 m_type = col_type r,
                 m_timestamp = col_timestamp r,
                 m_summary = col_summary r,
                 m_quote = col_quote r,
                 m_decision = col_decision r,
                 m_outcome = col_outcome r,
                 m_lesson = col_lesson r,
                 m_stage = col_stage r,
                 m_situation = col_situation r,
                 m_tags = tags,
                 m_source = \<lparr> src_podcast = col_podcast r,
                              src_episode = col_episode r,
                              src_guest = col_guest r,
                              src_date = col_episode_date r,
                              src_url = col_source_url r,
                              src_url_at_moment = col_url_at_moment r \<rparr> \<rparr>)"

text \<open>\<open>[format_moment(r) for r in rows]\<close>: the first exception ends the comprehension.\<close>

definition format_moments :: "('v, 't) json_lib \<Rightarrow> row list \<Rightarrow> 'v moment list option" where
  "format_moments J rows = those (map (format_moment J) rows)"

text \<open>The bounds \<open>ge=1, le=20\<close> declared for every \<open>limit\<close> of the API.\<close>

definition limit_in_bounds :: "int \<Rightarrow> bool" where
  "limit_in_bounds limit = (1 \<le> limit \<and> limit \<le> 20)"

text \<open>An optional string parameter as a condition (\<open>if stage:\<close>): absent and empty are false.\<close>

definition given :: "string option \<Rightarrow> string option" where
  "given p = (case p of None \<Rightarrow> None | Some s \<Rightarrow> if s = [] then None else Some s)"

text \<open>
  The full-text engine is the database's: \<open>fts_engine\<close> stands for the \<open>SELECT\<close> of
  \<open>search\<close> and \<open>situation_match\<close> without its \<open>LIMIT\<close>. Given the match expression and
  the values bound to the filters on \<open>stage\<close>, \<open>type\<close> and \<open>podcast\<close> (\<open>None\<close> when the
  filter is not part of the statement), it returns the joined rows in rank order, or
  \<open>None\<close> when the engine raises. \<open>sql_limit\<close> is the clause \<open>LIMIT ?\<close>, which in SQLite
  is no limit at all for a negative number.
\<close>

type_synonym fts_engine =
  "string \<Rightarrow> string option \<Rightarrow> string option \<Rightarrow> string option \<Rightarrow> row list option"

definition sql_limit :: "int \<Rightarrow> 'a list \<Rightarrow> 'a list" where
  "sql_limit n rows = (if n < 0 then rows else take (nat n) rows)"

record 'v search_response =
  sr_query :: string
  sr_filters :: "(string \<times> string) list"
  sr_count :: int
  sr_moments :: "'v moment list"

definition active_filters ::
  "string option \<Rightarrow> string option \<Rightarrow> string option \<Rightarrow> (string \<times> string) list"
where
  "active_filters stage mtype podcast =
     (case given stage of None \<Rightarrow> [] | Some v \<Rightarrow> [(''stage'', v)])
     @ (case given mtype of None \<Rightarrow> [] | Some v \<Rightarrow> [(''type'', v)])
     @ (case given podcast of None \<Rightarrow> [] | Some v \<Rightarrow> [(''podcast'', v)])"

definition search ::
  "('v, 't) json_lib \<Rightarrow> fts_engine \<Rightarrow> string \<Rightarrow> string option \<Rightarrow> string option
     \<Rightarrow> string option \<Rightarrow> int \<Rightarrow> error + 'v search_response"
where
  "search J engine q stage mtype podcast limit =
     (if \<not> limit_in_bounds limit then Inl RequestValidationError
      else if py_strip q = [] then Inl (HTTPException 400)
      else
        (let fts_query = py_strip q
         in case engine fts_query (given stage) (given mtype)
                  (map_option (\<lambda>p. ''%'' @ p @ ''%'') (given podcast)) of
              None \<Rightarrow> Inl (HTTPException 400)
            | Some ranked \<Rightarrow>
                (case format_moments J (sql_limit limit ranked) of
                   None \<Rightarrow> Inl ServerError
                 | Some moments \<Rightarrow>
                     Inr \<lparr> sr_query = q,
                           sr_filters = active_filters stage mtype podcast,
                           sr_count = int (length moments),
                           sr_moments = moments \<rparr>)))"

text \<open>\<open>SELECT * FROM moments WHERE id = ?\<close> with \<open>fetchone\<close>, over the rows of the table.\<close>

definition fetch_by_id :: "row list \<Rightarrow> string \<Rightarrow> row option" where
  "fetch_by_id db moment_id = find (\<lambda>r. col_id r = moment_id) db"

definition get_moment :: "('v, 't) json_lib \<Rightarrow> row list \<Rightarrow> string \<Rightarrow> error + 'v moment" where
  "get_moment J db moment_id =
     (case fetch_by_id db moment_id of
        None \<Rightarrow> Inl (HTTPException 404)
      | Some r \<Rightarrow>
          (case format_moment J r of None \<Rightarrow> Inl ServerError | Some m \<Rightarrow> Inr m))"

text \<open>
  \<open>SELECT * FROM moments WHERE id != ? AND tags IS NOT NULL AND tags != '[]'\<close>: the
  rows come in the order in which the table is scanned, which is the order of \<open>db\<close>.
\<close>

definition fetch_candidates :: "row list \<Rightarrow> string \<Rightarrow> row list" where
  "fetch_candidates db moment_id =
     filter (\<lambda>r. col_id r \<noteq> moment_id \<and> col_tags r \<noteq> None \<and> col_tags r \<noteq> Some ''[]'') db"

text \<open>
  \<open>set(json.loads(c["tags"]))\<close> inside the \<open>try\<close> of the scoring loop: \<open>None\<close> is any
  exception, which the loop answers with \<open>continue\<close>.
\<close>

definition candidate_tags :: "('v, 't) json_lib \<Rightarrow> row \<Rightarrow> 't list option" where
  "candidate_tags J c =
     (case col_tags c of
        None \<Rightarrow> None
      | Some s \<Rightarrow> (case json_loads J s of None \<Rightarrow> None | Some v \<Rightarrow> py_set J v))"

text \<open>\<open>len(source_tag_set & c_tags)\<close>.\<close>

definition shared_tags :: "'t list \<Rightarrow> 't list \<Rightarrow> nat" where
  "shared_tags source_tags c_tags = card (set source_tags \<inter> set c_tags)"

fun score :: "('v, 't) json_lib \<Rightarrow> 't list \<Rightarrow> string option \<Rightarrow> row list \<Rightarrow> (nat \<times> nat \<times> row) list"
where
  "score J source_tag_set source_stage [] = []"
| "score J source_tag_set source_stage (c # cs) =
     (case candidate_tags J c of
        None \<Rightarrow> score J source_tag_set source_stage cs
      | Some c_tags \<Rightarrow>
          (let shared = shared_tags source_tag_set c_tags
           in if 0 < shared then
                (let same_stage = (if col_stage c = source_stage then 1 else 0)
                 in (shared, same_stage, c) # score J source_tag_set source_stage cs)
              else score J source_tag_set source_stage cs))"

text \<open>
  \<open>xs.sort(key=f, reverse=True)\<close>. The sort of Python lists is stable; with
  \<open>reverse=True\<close> the list is reversed, sorted upwards and reversed again, so that
  elements with equal keys keep their order.
\<close>

definition sort_reverse :: "('a \<Rightarrow> 'k::linorder) \<Rightarrow> 'a list \<Rightarrow> 'a list" where
  "sort_reverse f xs = rev (sort_key f (rev xs))"

definition sort_key_of :: "nat \<times> nat \<times> row \<Rightarrow> nat \<times> nat" where
  "sort_key_of x = (fst x, fst (snd x))"

text \<open>The slice \<open>xs[:n]\<close>; a negative \<open>n\<close> counts from the end.\<close>

definition slice_to :: "'a list \<Rightarrow> int \<Rightarrow> 'a list" where
  "slice_to xs n = (if 0 \<le> n then take (nat n) xs else take (length xs - nat (- n)) xs)"

text \<open>
  In \<open>sim_source_tags\<close>, \<open>None\<close> is a response without the key \<open>source_tags\<close> (the early
  return for a source without tags).
\<close>

record 'v similar_response =
  sim_source_id :: string
  sim_source_tags :: "'v option"
  sim_count :: int
  sim_moments :: "'v moment list"

definition similar ::
  "('v, 't) json_lib \<Rightarrow> row list \<Rightarrow> string \<Rightarrow> int \<Rightarrow> error + 'v similar_response"
where
  "similar J db moment_id limit =
     (if \<not> limit_in_bounds limit then Inl RequestValidationError
      else
        (case fetch_by_id db moment_id of
           None \<Rightarrow> Inl (HTTPException 404)
         | Some source \<Rightarrow>
             (case load_tags J (col_tags source) of
                None \<Rightarrow> Inl ServerError
              | Some None \<Rightarrow>
                  Inr \<lparr> sim_source_id = moment_id, sim_source_tags = None,
                        sim_count = 0, sim_moments = [] \<rparr>
              | Some (Some source_tags) \<Rightarrow>
                  if \<not> py_bool J source_tags then
                    Inr \<lparr> sim_source_id = moment_id, sim_source_tags = None,
                          sim_count = 0, sim_moments = [] \<rparr>
                  else
                    (case py_set J source_tags of
                       None \<Rightarrow> Inl ServerError
                     | Some source_tag_set \<Rightarrow>
                         (let candidates = fetch_candidates db moment_id;
                              scored = score J source_tag_set (col_stage source) candidates;
                              scored = sort_reverse sort_key_of scored
                          in case format_moments J
                                    (map (\<lambda>x. snd (snd x)) (slice_to scored limit)) of
                               None \<Rightarrow> Inl ServerError
                             | Some top_moments \<Rightarrow>
                                 Inr \<lparr> sim_source_id = moment_id,
                                       sim_source_tags = Some source_tags,
                                       sim_count = int (length top_moments),
                                       sim_moments = top_moments \<rparr>)))))"

text \<open>
  The request body of \<open>POST /situation\<close>. \<open>SituationRequest\<close> is the validation that
  builds it: the field \<open>limit\<close> is declared with \<open>Field(5, ge=1, le=20)\<close>.
\<close>

record situation_request =
  req_situation :: string
  req_stage :: "string option"
  req_limit :: int

definition SituationRequest ::
  "string \<Rightarrow> string option \<Rightarrow> int \<Rightarrow> error + situation_request"
where
  "SituationRequest situation stage limit =
     (if \<not> limit_in_bounds limit then Inl RequestValidationError
      else Inr \<lparr> req_situation = situation, req_stage = stage, req_limit = limit \<rparr>)"

record 'v situation_response =
  sit_situation :: string
  sit_query_keywords :: "string list"
  sit_stage_filter :: "string option"
  sit_count :: int
  sit_moments :: "'v moment list"

text \<open>\<open>limit = max(1, min(body.limit, 20))\<close> in the handler.\<close>

definition situation_limit :: "situation_request \<Rightarrow> int" where
  "situation_limit body = max 1 (min (req_limit body) 20)"

definition situation_match ::
  "('v, 't) json_lib \<Rightarrow> fts_engine \<Rightarrow> situation_request \<Rightarrow> error + 'v situation_response"
where
  "situation_match J engine body =
     (if py_strip (req_situation body) = [] then Inl (HTTPException 400)
      else
        (let limit = situation_limit body;
             keywords = extract_keywords (req_situation body)
         in if keywords = [] then Inl (HTTPException 400)
            else
              (let fts_query = py_join '' OR '' keywords
               in case engine fts_query (given (req_stage body)) None None of
                    None \<Rightarrow> Inl (HTTPException 400)
                  | Some ranked \<Rightarrow>
                      (case format_moments J (sql_limit limit ranked) of
                         None \<Rightarrow> Inl ServerError
                       | Some moments \<Rightarrow>
                           Inr \<lparr> sit_situation = req_situation body,
                                 sit_query_keywords = keywords,
                                 sit_stage_filter = req_stage body,
                                 sit_count = int (length moments),
                                 sit_moments = moments \<rparr>))))"

text \<open>\<open>POST /situation\<close>: the body is validated, then handed to the handler.\<close>

definition post_situation ::
  "('v, 't) json_lib \<Rightarrow> fts_engine \<Rightarrow> string \<Rightarrow> string option \<Rightarrow> int
     \<Rightarrow> error + 'v situation_response"
where
  "post_situation J engine situation stage limit =
     (case SituationRequest situation stage limit of
        Inl e \<Rightarrow> Inl e
      | Inr body \<Rightarrow> situation_match J engine body)"


section \<open>The agent tools (echomindr_mcp.py)\<close>

text \<open>
  The tools call the API over HTTP. The calls they can make are the constructors of
  \<open>api_call\<close>, and the client (\<open>api_get\<close>, \<open>api_post\<close>) is a parameter \<open>api\<close> that answers
  a call. What a tool returns is modelled up to the rendering of the answer as text:
  it is the answer of the one call the tool makes.
\<close>

datatype api_call =
    GetSearch string "string option" string int
  | PostSituation string "string option" int
  | GetMoment string
  | GetSimilar string int

definition search_experience ::
  "(api_call \<Rightarrow> 'r) \<Rightarrow> string \<Rightarrow> string option \<Rightarrow> string option \<Rightarrow> int \<Rightarrow> 'r"
where
  "search_experience api situation stage mtype limit =
     (let limit = max 1 (min limit 10)
      in case given mtype of
           Some t \<Rightarrow> api (GetSearch situation stage t limit)
         | None \<Rightarrow> api (PostSituation situation (given stage) limit))"

definition get_experience_detail :: "(api_call \<Rightarrow> 'r) \<Rightarrow> string \<Rightarrow> 'r" where
  "get_experience_detail api moment_id = api (GetMoment moment_id)"

definition find_similar_experiences :: "(api_call \<Rightarrow> 'r) \<Rightarrow> string \<Rightarrow> int \<Rightarrow> 'r" where
  "find_similar_experiences api moment_id limit =
     (let limit = max 1 (min limit 5) in api (GetSimilar moment_id limit))"

text \<open>The limit that a call carries, when it carries one.\<close>

fun call_limit :: "api_call \<Rightarrow> int option" where
  "call_limit (GetSearch q stage mtype limit) = Some limit"
| "call_limit (PostSituation situation stage limit) = Some limit"
| "call_limit (GetMoment moment_id) = None"
| "call_limit (GetSimilar moment_id limit) = Some limit"


section \<open>Notions used to state the properties\<close>

text \<open>
  The number of tags a candidate row shares with the source, as the scoring loop
  computes it: nothing for a row whose tag column does not decode to a set.
\<close>

definition overlap :: "('v, 't) json_lib \<Rightarrow> 't list \<Rightarrow> row \<Rightarrow> nat" where
  "overlap J source_tag_set c =
     (case candidate_tags J c of None \<Rightarrow> 0 | Some c_tags \<Rightarrow> shared_tags source_tag_set c_tags)"

text \<open>The candidates that the scoring loop keeps, in scan order.\<close>

definition survivors :: "('v, 't) json_lib \<Rightarrow> 't list \<Rightarrow> row list \<Rightarrow> string \<Rightarrow> row list" where
  "survivors J source_tag_set db moment_id =
     filter (\<lambda>c. 0 < overlap J source_tag_set c) (fetch_candidates db moment_id)"

text \<open>The rows of the sorted list \<open>scored\<close> of \<open>similar\<close>, before the slice.\<close>

definition ranked_rows ::
  "('v, 't) json_lib \<Rightarrow> 't list \<Rightarrow> row \<Rightarrow> row list \<Rightarrow> string \<Rightarrow> row list"
where
  "ranked_rows J source_tag_set source db moment_id =
     map (\<lambda>x. snd (snd x))
       (sort_reverse sort_key_of
          (score J source_tag_set (col_stage source) (fetch_candidates db moment_id)))"

text \<open>
  The source row carries no tags: its tag column is \<open>NULL\<close> or empty, or it decodes to a
  value that counts as false (\<open>if not source_tags\<close>).
\<close>

definition source_without_tags :: "('v, 't) json_lib \<Rightarrow> row \<Rightarrow> bool" where
  "source_without_tags J source =
     (case load_tags J (col_tags source) of
        None \<Rightarrow> False
      | Some None \<Rightarrow> True
      | Some (Some v) \<Rightarrow> \<not> py_bool J v)"

text \<open>\<open>a\<close> stands at an earlier place of the list than \<open>b\<close>.\<close>

definition before :: "'a list \<Rightarrow> 'a \<Rightarrow> 'a \<Rightarrow> bool" where
  "before xs a b = (\<exists>us vs ws. xs = us @ a # vs @ b # ws)"

text \<open>
  The identifiers of the stored rows are the identifiers drawn from the generator so
  far, in the order in which they were drawn.
\<close>

definition ids_generated :: "(nat \<Rightarrow> string) \<Rightarrow> build_state \<Rightarrow> bool" where
  "ids_generated uuid4 st = (map col_id (bs_rows st) = map uuid4 [0..<bs_uuids st])"

text \<open>The stored identifier that \<open>build_sample_db\<close> takes over from a sample moment, if any.\<close>

definition own_id :: "'v raw_moment \<Rightarrow> string option" where
  "own_id m = given (rm_id m)"


section \<open>Sample data\<close>

text \<open>
  A small instance of the library parameters, for running the model: tag lists are
  lists of strings, written the way \<open>json.dumps\<close> writes them, and decoded for the
  lists that occur below; any other text here is not JSON at all.
\<close>

definition dq :: char where
  "dq = CHR 0x22"

definition sample_dumps :: "string list \<Rightarrow> string" where
  "sample_dumps tags = ''['' @ py_join '', '' (map (\<lambda>t. dq # t @ [dq]) tags) @ '']''"

definition sample_loads :: "string \<Rightarrow> string list option" where
  "sample_loads s =
     map_of (map (\<lambda>tags. (sample_dumps tags, tags))
               [[], [''pricing''], [''pricing'', ''saas''], [''hiring'']]) s"

definition sample_json :: "(string list, string) json_lib" where
  "sample_json = \<lparr> json_loads = sample_loads, json_dumps = sample_dumps,
                    py_bool = (\<lambda>tags. tags \<noteq> []), py_set = Some \<rparr>"

definition sample_row :: "string \<Rightarrow> string option \<Rightarrow> string option \<Rightarrow> row" where
  "sample_row i stage tags =
     \<lparr> col_id = i, col_type = ''lesson'', col_timestamp = Some ''3:26'',
       col_summary = ''Raised prices after the first ten customers'',
       col_quote = None, col_decision = None, col_outcome = None, col_lesson = None,
       col_stage = stage, col_situation = None, col_tags = tags,
       col_podcast = Some ''Acquired'', col_episode = Some ''Episode 12'',
       col_guest = Some ''Ada Park'', col_episode_date = Some ''2024-05-01'',
       col_source_url = Some ''https://www.youtube.com/watch?v=XYZ'',
       col_url_at_moment = Some ''https://www.youtube.com/watch?v=XYZ&t=206s'' \<rparr>"

definition row_s0 :: row where
  "row_s0 = sample_row ''s0'' (Some ''mvp'') (Some (sample_dumps [''pricing'', ''saas'']))"

definition row_a1 :: row where
  "row_a1 = sample_row ''a1'' (Some ''mvp'') (Some (sample_dumps [''pricing'']))"

definition row_bad :: row where
  "row_bad = sample_row ''bad'' (Some ''mvp'') (Some ''pricing, saas'')"

definition row_b1 :: row where
  "row_b1 = sample_row ''b1'' (Some ''mvp'') (Some (sample_dumps [''pricing'']))"

definition row_c1 :: row where
  "row_c1 = sample_row ''c1'' (Some ''scale'') (Some (sample_dumps [''hiring'']))"

definition sample_db :: "row list" where
  "sample_db = [row_s0, row_a1, row_bad, row_b1, row_c1]"

text \<open>
  A second store, in which the scan order differs from the ranking: \<open>d1\<close> shares one
  tag with \<open>s0\<close> but has another stage, \<open>e1\<close> shares two.
\<close>

definition row_d1 :: row where
  "row_d1 = sample_row ''d1'' (Some ''scale'') (Some (sample_dumps [''pricing'']))"

definition row_e1 :: row where
  "row_e1 = sample_row ''e1'' (Some ''scale'') (Some (sample_dumps [''pricing'', ''saas'']))"

definition ranking_db :: "row list" where
  "ranking_db = [row_s0, row_d1, row_a1, row_e1, row_b1]"

text \<open>An engine whose index answers every match expression with the same two rows.\<close>

definition sample_engine :: fts_engine where
  "sample_engine q stage mtype podcast = Some [row_a1, row_b1]"

definition sample_uuid4 :: "nat \<Rightarrow> string" where
  "sample_uuid4 k = ''uuid-'' @ replicate k CHR ''x''"

definition sample_moment :: "string option \<Rightarrow> string list raw_moment" where
  "sample_moment i =
     \<lparr> rm_id = i, rm_type = Some ''lesson'', rm_timestamp = Some ''3:26'',
       rm_summary = Some ''Raised prices after the first ten customers'',
       rm_quote = None, rm_decision = None, rm_outcome = None, rm_lesson = None,
       rm_stage = Some ''mvp'', rm_situation = None, rm_context = None,
       rm_tags = Some [''pricing''], rm_source = None \<rparr>"


definition sample_episode :: "string list episode" where
  "sample_episode =
     \<lparr> ep_moments = Parsed [sample_moment (Some ''m-001''), sample_moment None],
       ep_meta = Map.empty \<rparr>"


section \<open>Properties\<close>

subsection \<open>Evaluation of the string helpers\<close>

lemmas int_eval =
  py_int_def parse_unsigned_def digit_val_def int_max_str_digits_def
  py_strip_def strip_chars_def is_space_def is_int_space_def

lemmas str_eval = py_str_def str_nat.simps digit_char_def

lemma startswith_Nil [simp]: "startswith [] p = (p = [])"
  by (auto simp: startswith_def)

subsection \<open>Timestamps and URLs\<close>

text \<open>
  Claim C3. The timestamp \<open>3:26\<close> parses to 206 seconds and \<open>1:23:45\<close> to 5025. The
  watch URL \<open>https://www.youtube.com/watch?v=XYZ\<close> with the timestamp \<open>1:02:03\<close> gives
  \<open>https://www.youtube.com/watch?v=XYZ&t=3723s\<close>. When the timestamp does not parse,
  a watch URL is returned unchanged, and a URL that is not a watch URL of the video
  host gives no timestamped URL at all, whatever the timestamp.
\<close>

theorem timestamp_url_derivation:
  "parse_timestamp_to_seconds ''3:26'' = Some 206
   \<and> parse_timestamp_to_seconds ''1:23:45'' = Some 5025
   \<and> build_url_at_moment ''https://www.youtube.com/watch?v=XYZ'' ''1:02:03''
       = Some ''https://www.youtube.com/watch?v=XYZ&t=3723s''
   \<and> (startswith url ''https://www.youtube.com/watch?v=''
        \<and> parse_timestamp_to_seconds ts = None
        \<longrightarrow> build_url_at_moment url ts = Some url)
   \<and> (\<not> startswith url' ''https://www.youtube.com/watch?v=''
        \<longrightarrow> build_url_at_moment url' ts' = None)"
proof -
  have "parse_timestamp_to_seconds ''3:26'' = Some 206"
    by (simp add: parse_timestamp_to_seconds_def int_eval)
  moreover have "parse_timestamp_to_seconds ''1:23:45'' = Some 5025"
    by (simp add: parse_timestamp_to_seconds_def int_eval)
  moreover have "build_url_at_moment ''https://www.youtube.com/watch?v=XYZ'' ''1:02:03''
       = Some ''https://www.youtube.com/watch?v=XYZ&t=3723s''"
    by (simp add: build_url_at_moment_def startswith_def parse_timestamp_to_seconds_def
        int_eval str_eval)
  moreover have "startswith url ''https://www.youtube.com/watch?v=''
        \<and> parse_timestamp_to_seconds ts = None
        \<longrightarrow> build_url_at_moment url ts = Some url"
    by (auto simp: build_url_at_moment_def)
  moreover have "\<not> startswith url' ''https://www.youtube.com/watch?v=''
        \<longrightarrow> build_url_at_moment url' ts' = None"
    by (simp add: build_url_at_moment_def)
  ultimately show ?thesis by blast
qed

theorem timestamp_url_derivation_witness:
  "startswith ''https://www.youtube.com/watch?v=XYZ'' ''https://www.youtube.com/watch?v=''
   \<and> parse_timestamp_to_seconds ''about ten minutes in'' = None
   \<and> build_url_at_moment ''https://www.youtube.com/watch?v=XYZ'' ''about ten minutes in''
       = Some ''https://www.youtube.com/watch?v=XYZ''
   \<and> \<not> startswith ''https://example.com/ep/12'' ''https://www.youtube.com/watch?v=''
   \<and> build_url_at_moment ''https://example.com/ep/12'' ''3:26'' = None"
proof -
  have h1: "startswith ''https://www.youtube.com/watch?v=XYZ'' ''https://www.youtube.com/watch?v=''"
    by (simp add: startswith_def)
  have h2: "parse_timestamp_to_seconds ''about ten minutes in'' = None"
    by (simp add: parse_timestamp_to_seconds_def int_eval)
  have h3: "\<not> startswith ''https://example.com/ep/12'' ''https://www.youtube.com/watch?v=''"
    by (simp add: startswith_def)
  show ?thesis
    using h1 h2 h3
      timestamp_url_derivation [of "''https://www.youtube.com/watch?v=XYZ''"
        "''about ten minutes in''" "''https://example.com/ep/12''" "''3:26''"]
    by blast
qed

subsection \<open>Evaluation of the API on the sample data\<close>

lemmas kw_eval =
  extract_keywords_def findall_def py_lower_def lower_char_def upper_chars_def
  lower_chars_def is_word_char_def emit_def STOPWORDS_def strip_chars_def apos_def

lemmas sample_eval =
  sample_db_def row_s0_def row_a1_def row_bad_def row_b1_def row_c1_def sample_row_def
  sample_json_def sample_loads_def sample_dumps_def dq_def sample_engine_def

lemmas api_eval =
  similar_def limit_in_bounds_def fetch_by_id_def load_tags_def fetch_candidates_def
  candidate_tags_def shared_tags_def sort_reverse_def sort_key_of_def slice_to_def
  format_moments_def format_moment_def search_def situation_match_def get_moment_def
  sql_limit_def given_def active_filters_def situation_limit_def py_strip_def is_space_def

subsection \<open>Keyword extraction\<close>

text \<open>The loop that removes duplicates does what its comment says: no keyword is returned twice.\<close>

lemma dedupe_distinct:
  "distinct unique \<Longrightarrow> distinct (dedupe (set unique) unique kws)"
proof (induction kws arbitrary: unique)
  case Nil
  then show ?case by simp
next
  case (Cons kw kws)
  show ?case
  proof (cases "kw \<in> set unique")
    case True
    with Cons show ?thesis by simp
  next
    case False
    with Cons.prems have "distinct (unique @ [kw])" by simp
    from Cons.IH [OF this] False show ?thesis by simp
  qed
qed

lemma extract_keywords_distinct: "distinct (extract_keywords text)"
  using dedupe_distinct [of "[]"] by (simp add: extract_keywords_def Let_def)

text \<open>
  Claim C1 says that no keyword is shorter than three characters and that none is a
  stopword. The code tests both on the word as the regular expression matched it and
  strips the apostrophes afterwards. For the text \<open>'an'\<close> (the word \<open>an\<close> between two
  apostrophes) the match is four characters long and is no stopword, and the keyword
  returned is \<open>an\<close>: two characters, and a member of the stopword set.
\<close>

theorem extract_keywords_returns_short_stopword:
  "extract_keywords (apos # ''an'' @ [apos]) = [''an'']
   \<and> length ''an'' < 3 \<and> ''an'' \<in> STOPWORDS"
  by (simp add: kw_eval)

text \<open>
  Claim C8 says that extracting again from the keywords joined by spaces gives the same
  set of terms. For the text \<open>'the'\<close> the keywords are \<open>the\<close> alone, and extracting from
  \<open>the\<close> gives nothing, since now the stopword test sees the word without its
  apostrophes.
\<close>

theorem extract_keywords_rerun_loses_term:
  "extract_keywords (apos # ''the'' @ [apos]) = [''the'']
   \<and> extract_keywords (py_join '' '' (extract_keywords (apos # ''the'' @ [apos]))) = []"
  by (simp add: kw_eval)

subsection \<open>Merging a moment's source with the episode metadata\<close>

text \<open>
  Claim C5. The merged URL is the metadata URL when there is one and the moment's own
  URL otherwise, except that a URL starting with \<open>ytsearch1:\<close> gives the empty string,
  so that no merged URL ever starts with \<open>ytsearch1:\<close>. The merged guest is the
  metadata guest when there is one without \<open>TODO\<close> in it, otherwise the moment's own
  guest when that has no \<open>TODO\<close> in it, otherwise empty; no merged guest ever contains
  \<open>TODO\<close>.
\<close>

theorem resolve_source_merge:
  "rs_url (resolve_source moment meta) =
     (let meta_url = opt_get (meta ''url'') [];
          raw_url = dict_get (dict_or_empty (rm_source moment)) ''url'' [];
          preferred = (if meta_url \<noteq> [] then meta_url else raw_url)
      in if startswith preferred ''ytsearch1:'' then [] else preferred)
   \<and> \<not> startswith (rs_url (resolve_source moment meta)) ''ytsearch1:''
   \<and> rs_guest (resolve_source moment meta) =
     (let meta_guest = opt_get (meta ''guest'') [];
          raw_guest = dict_get (dict_or_empty (rm_source moment)) ''guest'' []
      in if meta_guest \<noteq> [] \<and> \<not> py_in ''TODO'' meta_guest then meta_guest
         else if \<not> py_in ''TODO'' raw_guest then raw_guest else [])
   \<and> \<not> py_in ''TODO'' (rs_guest (resolve_source moment meta))"
proof -
  have "rs_url (resolve_source moment meta) =
     (let meta_url = opt_get (meta ''url'') [];
          raw_url = dict_get (dict_or_empty (rm_source moment)) ''url'' [];
          preferred = (if meta_url \<noteq> [] then meta_url else raw_url)
      in if startswith preferred ''ytsearch1:'' then [] else preferred)"
    by (auto simp: resolve_source_def Let_def py_or_def opt_get_def split: option.splits)
  moreover have "\<not> startswith (rs_url (resolve_source moment meta)) ''ytsearch1:''"
    by (auto simp: resolve_source_def Let_def)
  moreover have "rs_guest (resolve_source moment meta) =
     (let meta_guest = opt_get (meta ''guest'') [];
          raw_guest = dict_get (dict_or_empty (rm_source moment)) ''guest'' []
      in if meta_guest \<noteq> [] \<and> \<not> py_in ''TODO'' meta_guest then meta_guest
         else if \<not> py_in ''TODO'' raw_guest then raw_guest else [])"
    by (auto simp: resolve_source_def Let_def py_or_def opt_get_def split: option.splits)
  moreover have "\<not> py_in ''TODO'' (rs_guest (resolve_source moment meta))"
    by (auto simp: resolve_source_def Let_def)
  ultimately show ?thesis by blast
qed

text \<open>
  An episode whose metadata still holds both placeholders, over a moment that names
  its guest: the guest comes from the moment, the URL is empty.
\<close>

theorem resolve_source_merge_witness:
  "rs_url (resolve_source
      ((sample_moment None) \<lparr> rm_source := Some [''guest'' \<mapsto> ''Ada Park'',
                                               ''url'' \<mapsto> ''https://example.com/ep/12''] \<rparr>)
      [''guest'' \<mapsto> ''TODO: guest'', ''url'' \<mapsto> ''ytsearch1:acquired episode 12'']) = []
   \<and> rs_guest (resolve_source
      ((sample_moment None) \<lparr> rm_source := Some [''guest'' \<mapsto> ''Ada Park'',
                                               ''url'' \<mapsto> ''https://example.com/ep/12''] \<rparr>)
      [''guest'' \<mapsto> ''TODO: guest'', ''url'' \<mapsto> ''ytsearch1:acquired episode 12''])
     = ''Ada Park''"
  using resolve_source_merge
    [of "(sample_moment None) \<lparr> rm_source := Some [''guest'' \<mapsto> ''Ada Park'',
                                                   ''url'' \<mapsto> ''https://example.com/ep/12''] \<rparr>"
        "[''guest'' \<mapsto> ''TODO: guest'', ''url'' \<mapsto> ''ytsearch1:acquired episode 12'']"]
  by (simp add: sample_moment_def opt_get_def dict_get_def dict_or_empty_def startswith_def)

subsection \<open>Responses of the API\<close>

lemma those_length: "those xs = Some ys \<Longrightarrow> length ys = length xs"
  by (induction xs arbitrary: ys) (auto split: option.splits)

lemma format_moments_length: "format_moments J rows = Some ms \<Longrightarrow> length ms = length rows"
  by (auto simp: format_moments_def dest: those_length)

lemma sql_limit_length: "0 \<le> n \<Longrightarrow> int (length (sql_limit n rows)) \<le> n"
  by (auto simp: sql_limit_def)

lemma slice_to_length: "0 \<le> n \<Longrightarrow> int (length (slice_to xs n)) \<le> n"
  by (auto simp: slice_to_def)

lemma map_slice_to: "map f (slice_to xs n) = slice_to (map f xs) n"
  by (simp add: slice_to_def take_map)

lemma situation_limit_bounds: "1 \<le> situation_limit body \<and> situation_limit body \<le> 20"
  by (simp add: situation_limit_def)

text \<open>What a successful answer of \<open>similar\<close> says about the run that produced it.\<close>

lemma similar_Inr:
  assumes "similar J db moment_id limit = Inr r"
  shows "limit_in_bounds limit \<and>
    (\<exists>source. fetch_by_id db moment_id = Some source \<and>
      ((sim_source_tags r = None \<and> sim_moments r = [] \<and> sim_count r = 0)
       \<or> (\<exists>v S. load_tags J (col_tags source) = Some (Some v) \<and> py_bool J v
              \<and> py_set J v = Some S \<and> sim_source_tags r = Some v
              \<and> format_moments J (slice_to (ranked_rows J S source db moment_id) limit)
                  = Some (sim_moments r)
              \<and> sim_count r = int (length (sim_moments r)))))"
  using assms
  by (auto simp: similar_def Let_def ranked_rows_def map_slice_to split: if_splits option.splits)

lemma search_count:
  assumes "search J engine q stage mtype podcast limit = Inr r"
  shows "sr_count r = int (length (sr_moments r)) \<and> int (length (sr_moments r)) \<le> limit"
proof -
  from assms have b: "limit_in_bounds limit"
    by (auto simp: search_def split: if_splits)
  from assms obtain ranked where
    m: "format_moments J (sql_limit limit ranked) = Some (sr_moments r)"
    and c: "sr_count r = int (length (sr_moments r))"
    by (auto simp: search_def Let_def split: if_splits option.splits)
  from b have "0 \<le> limit" by (simp add: limit_in_bounds_def)
  with m c show ?thesis
    using format_moments_length [OF m] sql_limit_length [of limit ranked] by simp
qed

lemma situation_count:
  assumes "situation_match J engine body = Inr r"
  shows "sit_count r = int (length (sit_moments r))
         \<and> int (length (sit_moments r)) \<le> situation_limit body"
proof -
  from assms obtain ranked where
    m: "format_moments J (sql_limit (situation_limit body) ranked) = Some (sit_moments r)"
    and c: "sit_count r = int (length (sit_moments r))"
    by (auto simp: situation_match_def Let_def split: if_splits option.splits)
  have "0 \<le> situation_limit body" using situation_limit_bounds [of body] by simp
  with m c show ?thesis
    using format_moments_length [OF m] sql_limit_length [of "situation_limit body" ranked]
    by simp
qed

lemma similar_count:
  assumes "similar J db moment_id limit = Inr r"
  shows "sim_count r = int (length (sim_moments r)) \<and> int (length (sim_moments r)) \<le> limit"
  using similar_Inr [OF assms]
proof (elim conjE exE disjE)
  assume "limit_in_bounds limit" "sim_moments r = []" "sim_count r = 0"
  then show ?thesis by (simp add: limit_in_bounds_def)
next
  fix source v S
  assume b: "limit_in_bounds limit"
    and m: "format_moments J (slice_to (ranked_rows J S source db moment_id) limit)
              = Some (sim_moments r)"
    and c: "sim_count r = int (length (sim_moments r))"
  from b have "0 \<le> limit" by (simp add: limit_in_bounds_def)
  then show ?thesis
    using c format_moments_length [OF m]
      slice_to_length [of limit "ranked_rows J S source db moment_id"] by simp
qed

text \<open>
  Claim C10. In every successful response of the keyword search, of the situation
  match and of the similarity operation, the field \<open>count\<close> is the number of moments
  in the response, and that number is at most the limit in force: the parameter
  \<open>limit\<close> for the search and for the similarity operation, the clamped limit of the
  body for the situation match.
\<close>

theorem response_count_within_limit:
  "(search J engine q stage mtype podcast limit = Inr r1 \<longrightarrow>
      sr_count r1 = int (length (sr_moments r1)) \<and> int (length (sr_moments r1)) \<le> limit)
   \<and> (situation_match J engine body = Inr r2 \<longrightarrow>
      sit_count r2 = int (length (sit_moments r2))
      \<and> int (length (sit_moments r2)) \<le> situation_limit body)
   \<and> (similar J db moment_id limit' = Inr r3 \<longrightarrow>
      sim_count r3 = int (length (sim_moments r3)) \<and> int (length (sim_moments r3)) \<le> limit')"
  using search_count situation_count similar_count by blast

theorem response_count_within_limit_witness:
  "(\<exists>r1. search sample_json sample_engine ''pricing'' None None None 1 = Inr r1
        \<and> sr_count r1 = int (length (sr_moments r1)) \<and> int (length (sr_moments r1)) \<le> 1)
   \<and> (\<exists>r2. situation_match sample_json sample_engine
              \<lparr> req_situation = ''pricing for early customers'', req_stage = None,
                req_limit = 1 \<rparr> = Inr r2
        \<and> sit_count r2 = int (length (sit_moments r2))
        \<and> int (length (sit_moments r2))
            \<le> situation_limit \<lparr> req_situation = ''pricing for early customers'',
                                 req_stage = None, req_limit = 1 \<rparr>)
   \<and> (\<exists>r3. similar sample_json sample_db ''s0'' 1 = Inr r3
        \<and> sim_count r3 = int (length (sim_moments r3)) \<and> int (length (sim_moments r3)) \<le> 1)"
proof -
  obtain r1 where h1: "search sample_json sample_engine ''pricing'' None None None 1 = Inr r1"
    by (simp add: api_eval sample_eval strip_chars_def)
  obtain r2 where h2: "situation_match sample_json sample_engine
      \<lparr> req_situation = ''pricing for early customers'', req_stage = None, req_limit = 1 \<rparr>
      = Inr r2"
    by (simp add: api_eval sample_eval kw_eval)
  obtain r3 where h3: "similar sample_json sample_db ''s0'' 1 = Inr r3"
    by (simp add: api_eval sample_eval)
  show ?thesis
    using h1 h2 h3
      response_count_within_limit [of sample_json sample_engine "''pricing''" None None None 1 r1
        "\<lparr> req_situation = ''pricing for early customers'', req_stage = None, req_limit = 1 \<rparr>"
        r2 sample_db "''s0''" 1 r3]
    by blast
qed

lemma fetch_unknown: "moment_id \<notin> col_id ` set db \<Longrightarrow> fetch_by_id db moment_id = None"
  by (auto simp: fetch_by_id_def find_None_iff)

text \<open>
  Claim C7. For an identifier that no row of the store carries, the lookup of a moment
  fails with status 404, and so does the similarity operation for a limit within its
  declared bounds; whatever the limit, the similarity operation does not answer with
  a response.
\<close>

theorem unknown_identifier_not_found:
  assumes "moment_id \<notin> col_id ` set db"
  shows "get_moment J db moment_id = Inl (HTTPException 404)
     \<and> (limit_in_bounds limit \<longrightarrow> similar J db moment_id limit = Inl (HTTPException 404))
     \<and> (\<forall>r. similar J db moment_id limit \<noteq> Inr r)"
  using fetch_unknown [OF assms] by (simp add: get_moment_def similar_def)

theorem unknown_identifier_not_found_witness:
  "''m404'' \<notin> col_id ` set sample_db
   \<and> get_moment sample_json sample_db ''m404'' = Inl (HTTPException 404)
   \<and> limit_in_bounds 5
   \<and> similar sample_json sample_db ''m404'' 5 = Inl (HTTPException 404)"
proof -
  have h: "''m404'' \<notin> col_id ` set sample_db"
    by (simp add: sample_eval)
  have b: "limit_in_bounds 5"
    by (simp add: limit_in_bounds_def)
  show ?thesis
    using h b unknown_identifier_not_found [OF h, of sample_json 5] by blast
qed

subsection \<open>Limits\<close>

text \<open>
  Claim C4 says that the situation-match path clamps a limit out of range and that the
  agent tools clamp with maximum 10. A body with the limit 50 is rejected by
  \<open>POST /situation\<close> before the handler runs, although the handler's clamp would have
  made 20 of it; and the tool \<open>find_similar_experiences\<close> asks the API for 5 moments
  when it is called with 8, where a clamp with maximum 10 keeps 8.
\<close>

theorem situation_limit_rejected_and_similar_tool_max_5:
  "post_situation sample_json sample_engine ''pricing for early customers'' None 50
     = Inl RequestValidationError
   \<and> situation_limit \<lparr> req_situation = ''pricing for early customers'', req_stage = None,
                        req_limit = 50 \<rparr> = 20
   \<and> find_similar_experiences call_limit ''s0'' 8 = Some 5
   \<and> max 1 (min 8 10) = (8::int)"
  by (simp add: post_situation_def SituationRequest_def limit_in_bounds_def
      situation_limit_def find_similar_experiences_def)

text \<open>
  Claim C4 as amended. A limit outside 1..20 is rejected on the keyword-search path and,
  in the same way, on the situation-match path, where the bounds are declared on the
  request body. The clamp of the situation handler yields a limit in 1..20 and leaves
  the limit of every accepted body as it is. Among the agent tools,
  \<open>search_experience\<close> makes one call to the API with the limit clamped into 1..10, and
  \<open>find_similar_experiences\<close> one with the limit clamped into 1..5.
\<close>

theorem limit_rejected_or_clamped:
  "(\<not> limit_in_bounds limit \<longrightarrow>
       search J engine q stage mtype podcast limit = Inl RequestValidationError
     \<and> post_situation J engine situation stage limit = Inl RequestValidationError)
   \<and> (SituationRequest situation stage limit2 = Inr body \<longrightarrow> situation_limit body = limit2)
   \<and> 1 \<le> situation_limit body2 \<and> situation_limit body2 \<le> 20
   \<and> (\<exists>call. search_experience api situation stage mtype limit3 = api call
          \<and> call_limit call = Some (max 1 (min limit3 10)))
   \<and> find_similar_experiences api moment_id limit3
       = api (GetSimilar moment_id (max 1 (min limit3 5)))"
  by (auto simp: search_def post_situation_def SituationRequest_def situation_limit_def
      limit_in_bounds_def search_experience_def find_similar_experiences_def Let_def
      split: option.splits)

theorem limit_rejected_or_clamped_witness:
  "\<not> limit_in_bounds 50
   \<and> search sample_json sample_engine ''pricing'' None None None 50
       = Inl RequestValidationError
   \<and> post_situation sample_json sample_engine ''pricing for early customers'' None 50
       = Inl RequestValidationError
   \<and> SituationRequest ''pricing for early customers'' None 7
       = Inr \<lparr> req_situation = ''pricing for early customers'', req_stage = None,
               req_limit = 7 \<rparr>
   \<and> situation_limit \<lparr> req_situation = ''pricing for early customers'', req_stage = None,
                        req_limit = 7 \<rparr> = 7"
proof -
  have h1: "\<not> limit_in_bounds 50"
    by (simp add: limit_in_bounds_def)
  have h2: "SituationRequest ''pricing for early customers'' None 7
       = Inr \<lparr> req_situation = ''pricing for early customers'', req_stage = None,
               req_limit = 7 \<rparr>"
    by (simp add: SituationRequest_def limit_in_bounds_def)
  show ?thesis
    using h1 h2
      limit_rejected_or_clamped [of 50 sample_json sample_engine "''pricing''" None None None
        "''pricing for early customers''" 7
        "\<lparr> req_situation = ''pricing for early customers'', req_stage = None, req_limit = 7 \<rparr>"]
    by blast
qed

subsection \<open>Identifiers assigned at ingestion\<close>

lemma insert_moment_ids_eq:
  "map col_id (bs_rows (insert_moment J uuid4 meta st m)) = map col_id (bs_rows st) @ [uuid4 (bs_uuids st)]"
  by (simp add: insert_moment_def Let_def split del: if_split)

lemma insert_moment_uuids: "bs_uuids (insert_moment J uuid4 meta st m) = Suc (bs_uuids st)"
  by (simp add: insert_moment_def Let_def split del: if_split)

lemma insert_moment_ids:
  "ids_generated uuid4 st \<Longrightarrow> ids_generated uuid4 (insert_moment J uuid4 meta st m)"
  by (simp add: ids_generated_def insert_moment_ids_eq insert_moment_uuids)

lemma foldl_insert_moment_ids:
  "ids_generated uuid4 st \<Longrightarrow> ids_generated uuid4 (foldl (insert_moment J uuid4 meta) st ms)"
  by (induction ms arbitrary: st) (simp_all add: insert_moment_ids)

lemma ids_generated_skipped [simp]:
  "ids_generated uuid4 (st \<lparr> bs_skipped_files := n \<rparr>) = ids_generated uuid4 st"
  by (simp add: ids_generated_def)

lemma build_episode_ids:
  "ids_generated uuid4 st \<Longrightarrow> ids_generated uuid4 (build_episode J uuid4 st ep)"
  by (simp add: build_episode_def foldl_insert_moment_ids split: moments_file.splits)

lemma foldl_build_episode_ids:
  "ids_generated uuid4 st \<Longrightarrow> ids_generated uuid4 (foldl (build_episode J uuid4) st eps)"
  by (induction eps arbitrary: st) (simp_all add: build_episode_ids)

lemma empty_db_ids: "ids_generated uuid4 empty_db"
  by (simp add: ids_generated_def empty_db_def)

lemma build_db_ids: "ids_generated uuid4 (build_db J uuid4 eps)"
  by (simp add: build_db_def foldl_build_episode_ids empty_db_ids)

lemma ids_generated_length: "ids_generated uuid4 st \<Longrightarrow> length (bs_rows st) = bs_uuids st"
  by (auto simp: ids_generated_def dest: arg_cong [where f = length])

lemma build_db_part:
  "map col_id (bs_rows (build_db J uuid4 eps)) = map uuid4 [0..<length (bs_rows (build_db J uuid4 eps))]
   \<and> (inj_on uuid4 {..<length (bs_rows (build_db J uuid4 eps))} \<longrightarrow> distinct (map col_id (bs_rows (build_db J uuid4 eps))))"
proof -
  have g: "ids_generated uuid4 (build_db J uuid4 eps)" by (rule build_db_ids)
  from ids_generated_length [OF g] g
  have e: "map col_id (bs_rows (build_db J uuid4 eps)) = map uuid4 [0..<length (bs_rows (build_db J uuid4 eps))]"
    by (simp add: ids_generated_def)
  have "inj_on uuid4 {..<length (bs_rows (build_db J uuid4 eps))} \<longrightarrow> distinct (map col_id (bs_rows (build_db J uuid4 eps)))"
  proof
    assume i: "inj_on uuid4 {..<length (bs_rows (build_db J uuid4 eps))}"
    have "distinct (map uuid4 [0..<length (bs_rows (build_db J uuid4 eps))])"
      using i by (simp add: distinct_map lessThan_atLeast0)
    with e show "distinct (map col_id (bs_rows (build_db J uuid4 eps)))" by simp
  qed
  with e show ?thesis by blast
qed

text \<open>The same for the sample build, where a moment may bring its identifier along.\<close>

lemma insert_sample_ids_eq:
  "map col_id (bs_rows (insert_sample J uuid4 st m)) =
     map col_id (bs_rows st) @ [case own_id m of Some own \<Rightarrow> own | None \<Rightarrow> uuid4 (bs_uuids st)]"
  by (cases "rm_id m")
     (simp_all add: insert_sample_def Let_def own_id_def given_def opt_get_def split del: if_split,
      simp_all add: opt_get_def)

lemma insert_sample_uuids:
  "bs_uuids (insert_sample J uuid4 st m) =
     (case own_id m of Some own \<Rightarrow> bs_uuids st | None \<Rightarrow> Suc (bs_uuids st))"
  by (cases "rm_id m")
     (simp_all add: insert_sample_def Let_def own_id_def given_def opt_get_def split del: if_split,
      simp_all add: opt_get_def)

lemma build_sample_snoc:
  "build_sample_db J uuid4 (ms @ [m]) = insert_sample J uuid4 (build_sample_db J uuid4 ms) m"
  by (simp add: build_sample_db_def)

lemma build_sample_uuids:
  "bs_uuids (build_sample_db J uuid4 ms) = length (filter (\<lambda>m. own_id m = None) ms)"
proof (induction ms rule: rev_induct)
  case Nil
  show ?case by (simp add: build_sample_db_def empty_db_def)
next
  case (snoc m ms)
  then show ?case
    by (simp add: build_sample_snoc insert_sample_uuids split: option.splits)
qed

lemma build_sample_ids_eq:
  "map col_id (bs_rows (build_sample_db J uuid4 ms)) =
     map (\<lambda>i. case own_id (ms ! i) of
                 Some own \<Rightarrow> own
               | None \<Rightarrow> uuid4 (length (filter (\<lambda>m. own_id m = None) (take i ms))))
         [0..<length ms]"
proof (induction ms rule: rev_induct)
  case Nil
  show ?case by (simp add: build_sample_db_def empty_db_def)
next
  case (snoc m ms)
  let ?F = "\<lambda>xs i. case own_id (xs ! i) of
                 Some own \<Rightarrow> own
               | None \<Rightarrow> uuid4 (length (filter (\<lambda>m. own_id m = None) (take i xs)))"
  have old: "map (?F (ms @ [m])) [0..<length ms] = map (?F ms) [0..<length ms]"
    by (rule map_cong) (simp_all add: nth_append cong: option.case_cong)
  have new: "(case own_id m of Some own \<Rightarrow> own
               | None \<Rightarrow> uuid4 (bs_uuids (build_sample_db J uuid4 ms)))
             = ?F (ms @ [m]) (length ms)"
    by (simp add: build_sample_uuids cong: option.case_cong)
  have "map col_id (bs_rows (build_sample_db J uuid4 (ms @ [m])))
      = map col_id (bs_rows (build_sample_db J uuid4 ms))
        @ [case own_id m of Some own \<Rightarrow> own
           | None \<Rightarrow> uuid4 (bs_uuids (build_sample_db J uuid4 ms))]"
    by (simp only: build_sample_snoc insert_sample_ids_eq)
  also have "\<dots> = map (?F ms) [0..<length ms] @ [?F (ms @ [m]) (length ms)]"
    by (simp only: snoc.IH new)
  also have "\<dots> = map (?F (ms @ [m])) [0..<length ms] @ [?F (ms @ [m]) (length ms)]"
    by (simp only: old)
  also have "\<dots> = map (?F (ms @ [m])) [0..<length (ms @ [m])]"
    by simp
  finally show ?case .
qed

lemma build_sample_length: "length (bs_rows (build_sample_db J uuid4 ms)) = length ms"
  using arg_cong [OF build_sample_ids_eq [of J uuid4 ms], where f = length] by simp

lemma build_sample_ids:
  assumes "i < length ms"
  shows "col_id (bs_rows (build_sample_db J uuid4 ms) ! i) =
     (case own_id (ms ! i) of
        Some own \<Rightarrow> own
      | None \<Rightarrow> uuid4 (length (filter (\<lambda>m. own_id m = None) (take i ms))))"
proof -
  from assms have "i < length (bs_rows (build_sample_db J uuid4 ms))"
    by (simp add: build_sample_length)
  then have "col_id (bs_rows (build_sample_db J uuid4 ms) ! i)
      = map col_id (bs_rows (build_sample_db J uuid4 ms)) ! i"
    by simp
  also have "\<dots> = (case own_id (ms ! i) of
        Some own \<Rightarrow> own
      | None \<Rightarrow> uuid4 (length (filter (\<lambda>m. own_id m = None) (take i ms))))"
    using assms by (simp add: build_sample_ids_eq cong: option.case_cong)
  finally show ?thesis .
qed

text \<open>
  Claim C9 says that a stored identifier is never drawn from the source file. The
  sample build stores the identifier that the sample moment brings along: for one
  moment with the \<open>id\<close> \<open>m-001\<close> the stored identifier is \<open>m-001\<close>, and the generator
  has not been called at all.
\<close>

theorem sample_build_keeps_source_id:
  "map col_id (bs_rows (build_sample_db sample_json sample_uuid4
                          [sample_moment (Some ''m-001'')])) = [''m-001'']
   \<and> rm_id (sample_moment (Some ''m-001'')) = Some ''m-001''
   \<and> bs_uuids (build_sample_db sample_json sample_uuid4 [sample_moment (Some ''m-001'')]) = 0"
  by (simp add: build_sample_db_def insert_sample_def empty_db_def sample_moment_def Let_def
      opt_get_def)

text \<open>
  Claim C9 as amended. In \<open>build_db\<close> the identifiers of the stored rows are the
  identifiers that the generator returned during the build, one for each row, in
  order, whatever the source files hold; they are pairwise different when the
  generator did not repeat itself. In \<open>build_sample_db\<close> the identifier of the
  \<open>i\<close>-th row is the \<open>id\<close> of the \<open>i\<close>-th sample moment when the moment has a non-empty
  one, and otherwise the next identifier from the generator.
\<close>

theorem stored_identifiers:
  "map col_id (bs_rows (build_db J uuid4 eps))
     = map uuid4 [0..<length (bs_rows (build_db J uuid4 eps))]
   \<and> (inj_on uuid4 {..<length (bs_rows (build_db J uuid4 eps))}
        \<longrightarrow> distinct (map col_id (bs_rows (build_db J uuid4 eps))))
   \<and> (i < length ms \<longrightarrow>
        col_id (bs_rows (build_sample_db J uuid4 ms) ! i) =
          (case own_id (ms ! i) of
             Some own \<Rightarrow> own
           | None \<Rightarrow> uuid4 (length (filter (\<lambda>m. own_id m = None) (take i ms)))))"
proof -
  have g: "ids_generated uuid4 (build_db J uuid4 eps)"
    by (rule build_db_ids)
  from ids_generated_length [OF g] g
  have e: "map col_id (bs_rows (build_db J uuid4 eps))
             = map uuid4 [0..<length (bs_rows (build_db J uuid4 eps))]"
    by (simp add: ids_generated_def)
  have d: "inj_on uuid4 {..<length (bs_rows (build_db J uuid4 eps))}
        \<longrightarrow> distinct (map col_id (bs_rows (build_db J uuid4 eps)))"
  proof
    assume "inj_on uuid4 {..<length (bs_rows (build_db J uuid4 eps))}"
    then have "distinct (map uuid4 [0..<length (bs_rows (build_db J uuid4 eps))])"
      by (simp add: distinct_map lessThan_atLeast0)
    with e show "distinct (map col_id (bs_rows (build_db J uuid4 eps)))" by simp
  qed
  from e d build_sample_ids [of i ms J uuid4] show ?thesis by blast
qed

text \<open>
  One episode with two moments, the first of which carries an \<open>id\<close> of its own:
  \<open>build_db\<close> stores the two generated identifiers. The sample build of the first
  moment stores the moment's own \<open>id\<close>.
\<close>

theorem stored_identifiers_witness:
  "map col_id (bs_rows (build_db sample_json sample_uuid4 [sample_episode]))
     = [sample_uuid4 0, sample_uuid4 1]
   \<and> inj_on sample_uuid4 {..<length (bs_rows (build_db sample_json sample_uuid4 [sample_episode]))}
   \<and> distinct (map col_id (bs_rows (build_db sample_json sample_uuid4 [sample_episode])))
   \<and> (0::nat) < length [sample_moment (Some ''m-001'')]
   \<and> col_id (bs_rows (build_sample_db sample_json sample_uuid4
                         [sample_moment (Some ''m-001'')]) ! 0) = ''m-001''"
proof -
  have n: "length (bs_rows (build_db sample_json sample_uuid4 [sample_episode])) = 2"
    by (simp add: build_db_def build_episode_def sample_episode_def insert_moment_def
        empty_db_def Let_def)
  have h1: "inj_on sample_uuid4 {..<length (bs_rows (build_db sample_json sample_uuid4 [sample_episode]))}"
    by (simp add: n lessThan_Suc eval_nat_numeral sample_uuid4_def)
  have h2: "(0::nat) < length [sample_moment (Some ''m-001'')]"
    by simp
  have o: "own_id (sample_moment (Some ''m-001'')) = Some ''m-001''"
    by (simp add: own_id_def given_def sample_moment_def)
  from stored_identifiers [of sample_json sample_uuid4 "[sample_episode]" 0
      "[sample_moment (Some ''m-001'')]"] h1 h2
  have "map col_id (bs_rows (build_db sample_json sample_uuid4 [sample_episode]))
          = map sample_uuid4 [0..<length (bs_rows (build_db sample_json sample_uuid4 [sample_episode]))]"
    and "distinct (map col_id (bs_rows (build_db sample_json sample_uuid4 [sample_episode])))"
    and "col_id (bs_rows (build_sample_db sample_json sample_uuid4
                         [sample_moment (Some ''m-001'')]) ! 0)
          = (case own_id ([sample_moment (Some ''m-001'')] ! 0) of
               Some own \<Rightarrow> own
             | None \<Rightarrow> sample_uuid4 (length (filter (\<lambda>m. own_id m = None)
                           (take 0 [sample_moment (Some ''m-001'')]))))"
    by blast+
  then show ?thesis
    using h1 h2 by (simp add: n o eval_nat_numeral upt_rec)
qed

subsection \<open>The ranking of similar moments\<close>

text \<open>The scoring loop as a filter followed by a map.\<close>

lemma score_eq:
  "score J S st cs =
     map (\<lambda>c. (overlap J S c, if col_stage c = st then 1 else 0, c))
         (filter (\<lambda>c. 0 < overlap J S c) cs)"
  by (induction cs) (auto simp: overlap_def Let_def split: option.splits)

lemma set_sort_reverse [simp]: "set (sort_reverse f xs) = set xs"
  by (simp add: sort_reverse_def)

lemma mset_sort_reverse [simp]: "mset (sort_reverse f xs) = mset xs"
  by (simp add: sort_reverse_def)

lemma sort_reverse_stable:
  "filter (\<lambda>x. f x = k) (sort_reverse f xs) = filter (\<lambda>x. f x = k) xs"
  by (simp add: sort_reverse_def rev_filter [symmetric] sort_key_stable)

lemma sort_reverse_descending:
  assumes "sort_reverse f xs = us @ a # vs @ b # ws"
  shows "f b \<le> f a"
proof -
  have "sorted (map f (sort_key f (rev xs)))" by (rule sorted_sort_key)
  moreover from assms have "sort_key f (rev xs) = rev ws @ b # rev vs @ a # rev us"
    by (simp add: sort_reverse_def rev_swap)
  ultimately show ?thesis by (auto simp: sorted_append)
qed

lemma before_filter:
  "before (filter P xs) a b \<Longrightarrow> before xs a b"
proof (induction xs)
  case Nil
  then show ?case by (simp add: before_def)
next
  case (Cons x xs)
  show ?case
  proof (cases "P x")
    case False
    with Cons have "before xs a b" by simp
    then obtain us vs ws where "xs = us @ a # vs @ b # ws" by (auto simp: before_def)
    then have "x # xs = (x # us) @ a # vs @ b # ws" by simp
    then show ?thesis unfolding before_def by blast
  next
    case True
    with Cons.prems obtain us vs ws where e: "x # filter P xs = us @ a # vs @ b # ws"
      by (auto simp: before_def)
    show ?thesis
    proof (cases us)
      case Nil
      with e have xa: "x = a" and f: "filter P xs = vs @ b # ws" by simp_all
      from f have "b \<in> set (filter P xs)" by simp
      then have "b \<in> set xs" by simp
      then obtain ys zs where "xs = ys @ b # zs" by (auto simp: in_set_conv_decomp)
      with xa have "x # xs = [] @ a # ys @ b # zs" by simp
      then show ?thesis unfolding before_def by blast
    next
      case (Cons u us')
      with e have "filter P xs = us' @ a # vs @ b # ws" by simp
      then have "before (filter P xs) a b" unfolding before_def by blast
      from Cons.IH [OF this] obtain us2 vs2 ws2 where "xs = us2 @ a # vs2 @ b # ws2"
        by (auto simp: before_def)
      then have "x # xs = (x # us2) @ a # vs2 @ b # ws2" by simp
      then show ?thesis unfolding before_def by blast
    qed
  qed
qed

lemma filter_before:
  "before xs a b \<Longrightarrow> P a \<Longrightarrow> P b \<Longrightarrow> before (filter P xs) a b"
  unfolding before_def
proof (elim exE)
  fix us vs ws
  assume "xs = us @ a # vs @ b # ws" "P a" "P b"
  then have "filter P xs = filter P us @ a # filter P vs @ b # filter P ws" by simp
  then show "\<exists>us vs ws. filter P xs = us @ a # vs @ b # ws" by blast
qed

lemma before_map:
  "before xs a b \<Longrightarrow> before (map f xs) (f a) (f b)"
  unfolding before_def
proof (elim exE)
  fix us vs ws
  assume "xs = us @ a # vs @ b # ws"
  then have "map f xs = map f us @ f a # map f vs @ f b # map f ws" by simp
  then show "\<exists>us vs ws. map f xs = us @ f a # vs @ f b # ws" by blast
qed

lemma before_nth:
  "i < j \<Longrightarrow> j < length xs \<Longrightarrow> before xs (xs ! i) (xs ! j)"
proof -
  assume ij: "i < j" and j: "j < length xs"
  then have i: "i < length xs" by simp
  have "xs = take i xs @ xs ! i # drop (Suc i) xs" using i by (simp add: id_take_nth_drop)
  moreover have "drop (Suc i) xs = take (j - Suc i) (drop (Suc i) xs) @ xs ! j # drop (Suc j) xs"
  proof -
    have l: "j - Suc i < length (drop (Suc i) xs)" using ij j by simp
    have "drop (Suc i) xs ! (j - Suc i) = xs ! j" using ij j by simp
    moreover have "drop (Suc (j - Suc i)) (drop (Suc i) xs) = drop (Suc j) xs" using ij by simp
    ultimately show ?thesis using id_take_nth_drop [OF l] by simp
  qed
  ultimately have "xs = take i xs @ xs ! i # take (j - Suc i) (drop (Suc i) xs) @ xs ! j # drop (Suc j) xs"
    by simp
  then show ?thesis unfolding before_def by blast
qed

text \<open>The sorted candidates: all survivors, ordered by the two keys, ties in scan order.\<close>

lemma ranked_rows_survivors:
  "ranked_rows J S source db moment_id =
     map (\<lambda>x. snd (snd x))
       (sort_reverse sort_key_of
          (map (\<lambda>c. (overlap J S c, if col_stage c = col_stage source then 1 else 0, c))
               (survivors J S db moment_id)))"
  by (simp add: ranked_rows_def score_eq survivors_def)

lemma mset_ranked_rows:
  "mset (ranked_rows J S source db moment_id) = mset (survivors J S db moment_id)"
  by (simp add: ranked_rows_survivors multiset.map_comp comp_def)

lemma ranked_rows_order:
  assumes ij: "i < j" and j: "j < length (ranked_rows J S source db moment_id)"
  shows "overlap J S (ranked_rows J S source db moment_id ! j)
           < overlap J S (ranked_rows J S source db moment_id ! i)
       \<or> (overlap J S (ranked_rows J S source db moment_id ! i)
             = overlap J S (ranked_rows J S source db moment_id ! j)
          \<and> col_stage (ranked_rows J S source db moment_id ! i) = col_stage source
          \<and> col_stage (ranked_rows J S source db moment_id ! j) \<noteq> col_stage source)
       \<or> (overlap J S (ranked_rows J S source db moment_id ! i)
             = overlap J S (ranked_rows J S source db moment_id ! j)
          \<and> (col_stage (ranked_rows J S source db moment_id ! i) = col_stage source
               \<longleftrightarrow> col_stage (ranked_rows J S source db moment_id ! j) = col_stage source)
          \<and> before db (ranked_rows J S source db moment_id ! i)
                       (ranked_rows J S source db moment_id ! j))"
proof -
  define g where "g = (\<lambda>c. (overlap J S c, if col_stage c = col_stage source then 1::nat else 0, c))"
  define surv where "surv = survivors J S db moment_id"
  define scored where "scored = map g surv"
  define srt where "srt = sort_reverse sort_key_of scored"
  define ranked where "ranked = ranked_rows J S source db moment_id"
  have ranked: "ranked = map (\<lambda>x. snd (snd x)) srt"
    by (simp add: ranked_def srt_def scored_def surv_def g_def ranked_rows_survivors)
  have len: "length srt = length ranked" by (simp add: ranked)
  from ij j have j': "j < length srt" and i': "i < length srt"
    by (simp_all add: len ranked_def)
  define a where "a = ranked ! i"
  define b where "b = ranked ! j"
  have img: "\<And>x. x \<in> set srt \<Longrightarrow> x = g (snd (snd x))"
    by (auto simp: srt_def scored_def g_def)
  have x: "srt ! i = g a"
    using img [of "srt ! i"] i' by (simp add: a_def ranked)
  have y: "srt ! j = g b"
    using img [of "srt ! j"] j' by (simp add: b_def ranked)
  have bef: "before srt (g a) (g b)"
    using before_nth [OF ij j'] by (simp add: x y)
  then obtain us vs ws where dec: "srt = us @ g a # vs @ g b # ws"
    by (auto simp: before_def)
  have le: "sort_key_of (g b) \<le> sort_key_of (g a)"
    using sort_reverse_descending [of sort_key_of scored us "g a" vs "g b" ws] dec
    by (simp add: srt_def)
  have scan: "before db a b" if tie: "sort_key_of (g a) = sort_key_of (g b)"
  proof -
    define k where "k = sort_key_of (g a)"
    have Pa: "sort_key_of (g a) = k" by (simp add: k_def)
    have Pb: "sort_key_of (g b) = k" using tie by (simp add: k_def)
    have "before (filter (\<lambda>z. sort_key_of z = k) srt) (g a) (g b)"
      using filter_before [of srt "g a" "g b" "\<lambda>z. sort_key_of z = k"] bef Pa Pb by blast
    then have "before (filter (\<lambda>z. sort_key_of z = k) scored) (g a) (g b)"
      by (simp only: srt_def sort_reverse_stable)
    then have "before scored (g a) (g b)" by (rule before_filter)
    then have "before (map (\<lambda>x. snd (snd x)) scored) (snd (snd (g a))) (snd (snd (g b)))"
      by (rule before_map)
    moreover have "map (\<lambda>x. snd (snd x)) scored = surv"
      by (simp add: scored_def g_def comp_def)
    moreover have "snd (snd (g a)) = a" "snd (snd (g b)) = b"
      by (simp_all add: g_def)
    ultimately have "before surv a b" by simp
    then have "before (fetch_candidates db moment_id) a b"
      unfolding surv_def survivors_def by (rule before_filter)
    then show ?thesis
      unfolding fetch_candidates_def by (rule before_filter)
  qed
  have "overlap J S b < overlap J S a
       \<or> (overlap J S a = overlap J S b \<and> col_stage a = col_stage source
           \<and> col_stage b \<noteq> col_stage source)
       \<or> (overlap J S a = overlap J S b
           \<and> (col_stage a = col_stage source \<longleftrightarrow> col_stage b = col_stage source)
           \<and> before db a b)"
  proof (cases "sort_key_of (g a) = sort_key_of (g b)")
    case True
    from scan [OF True] True show ?thesis
      by (auto simp: g_def sort_key_of_def split: if_splits)
  next
    case False
    with le show ?thesis
      by (auto simp: g_def sort_key_of_def split: if_splits)
  qed
  then show ?thesis by (simp add: a_def b_def ranked_def)
qed

lemma those_member: "those xs = Some ys \<Longrightarrow> y \<in> set ys \<Longrightarrow> Some y \<in> set xs"
  by (induction xs arbitrary: ys) (auto split: option.splits)

lemma format_moments_member:
  assumes "format_moments J rows = Some ms" and "m \<in> set ms"
  shows "\<exists>c\<in>set rows. format_moment J c = Some m"
  using those_member [OF assms [unfolded format_moments_def]] by auto

lemma format_moment_id: "format_moment J c = Some m \<Longrightarrow> m_id m = col_id c"
  by (auto simp: format_moment_def split: option.splits)

lemma set_slice_to: "set (slice_to xs n) \<subseteq> set xs"
  by (auto simp: slice_to_def dest: in_set_takeD)

lemma slice_to_take: "limit_in_bounds n \<Longrightarrow> slice_to xs n = take (nat n) xs"
  by (simp add: slice_to_def limit_in_bounds_def)

lemma set_ranked_rows:
  "set (ranked_rows J S source db moment_id) = set (survivors J S db moment_id)"
  using arg_cong [OF mset_ranked_rows [of J S source db moment_id], where f = set_mset]
  by simp

lemma survivorsD:
  "c \<in> set (survivors J S db moment_id) \<Longrightarrow>
     c \<in> set db \<and> col_id c \<noteq> moment_id \<and> 0 < overlap J S c"
  by (simp add: survivors_def fetch_candidates_def)

text \<open>A row that is not the source and whose tags do not decode leaves no trace in the run.\<close>

lemma fetch_by_id_skip:
  "col_id bad \<noteq> moment_id \<Longrightarrow>
     fetch_by_id (xs @ bad # ys) moment_id = fetch_by_id (xs @ ys) moment_id"
  by (induction xs) (simp_all add: fetch_by_id_def)

lemma overlap_undecodable: "candidate_tags J bad = None \<Longrightarrow> overlap J S bad = 0"
  by (simp add: overlap_def)

lemma score_skip:
  "candidate_tags J bad = None \<Longrightarrow>
     score J S st (fetch_candidates (xs @ bad # ys) moment_id)
       = score J S st (fetch_candidates (xs @ ys) moment_id)"
  by (simp add: score_eq fetch_candidates_def overlap_undecodable)

lemma similar_skip:
  assumes "candidate_tags J bad = None" and "col_id bad \<noteq> moment_id"
  shows "similar J (xs @ bad # ys) moment_id limit = similar J (xs @ ys) moment_id limit"
  by (simp only: similar_def Let_def fetch_by_id_skip [OF assms(2)] score_skip [OF assms(1)])

text \<open>
  Claim C6. Every moment in a response of the similarity operation is the formatting
  of a row of the store that does not carry the requested identifier and whose tag set
  shares at least one tag with the tag set of the source; so neither the source itself
  nor a candidate without a shared tag is returned. A row other than the source whose
  tag column does not decode to a set changes nothing: with or without it in the store,
  the operation gives the same result, and no error is raised for it.
\<close>

theorem similar_excludes_source_and_unrelated:
  "(similar J db moment_id limit = Inr resp \<longrightarrow>
      (\<forall>m\<in>set (sim_moments resp).
          m_id m \<noteq> moment_id
          \<and> (\<exists>v S c. sim_source_tags resp = Some v \<and> py_set J v = Some S
                \<and> c \<in> set db \<and> format_moment J c = Some m \<and> 0 < overlap J S c)))
   \<and> (candidate_tags J bad = None \<and> col_id bad \<noteq> moment_id \<longrightarrow>
        similar J (xs @ bad # ys) moment_id limit = similar J (xs @ ys) moment_id limit)"
proof -
  have part1: "m_id m \<noteq> moment_id
          \<and> (\<exists>v S c. sim_source_tags resp = Some v \<and> py_set J v = Some S
                \<and> c \<in> set db \<and> format_moment J c = Some m \<and> 0 < overlap J S c)"
    if h: "similar J db moment_id limit = Inr resp" and m: "m \<in> set (sim_moments resp)"
    for m
  proof -
    from m have "sim_moments resp \<noteq> []" by auto
    with similar_Inr [OF h] obtain source v S where
      v: "sim_source_tags resp = Some v" and S: "py_set J v = Some S"
      and f: "format_moments J (slice_to (ranked_rows J S source db moment_id) limit)
                = Some (sim_moments resp)"
      by auto
    from format_moments_member [OF f m] obtain c where
      c: "c \<in> set (slice_to (ranked_rows J S source db moment_id) limit)"
      and fc: "format_moment J c = Some m"
      by blast
    from c have "c \<in> set (ranked_rows J S source db moment_id)"
      by (rule subsetD [OF set_slice_to])
    then have "c \<in> set (survivors J S db moment_id)" by (simp add: set_ranked_rows)
    from survivorsD [OF this]
    have d: "c \<in> set db" "col_id c \<noteq> moment_id" "0 < overlap J S c"
      by simp_all
    from d(2) format_moment_id [OF fc] have "m_id m \<noteq> moment_id" by simp
    with v S d fc show ?thesis by blast
  qed
  have part2: "similar J (xs @ bad # ys) moment_id limit = similar J (xs @ ys) moment_id limit"
    if "candidate_tags J bad = None" and "col_id bad \<noteq> moment_id"
    using that by (rule similar_skip)
  from part1 part2 show ?thesis by blast
qed

text \<open>
  The sample store holds a row whose tag column is not JSON. The source \<open>s0\<close> gets its
  two neighbours, neither of which is \<open>s0\<close>, and the same answer as from the store
  without that row.
\<close>

theorem similar_excludes_source_and_unrelated_witness:
  "(\<exists>resp. similar sample_json sample_db ''s0'' 5 = Inr resp
        \<and> sim_moments resp \<noteq> []
        \<and> m_id (hd (sim_moments resp)) \<noteq> ''s0'')
   \<and> candidate_tags sample_json row_bad = None
   \<and> col_id row_bad \<noteq> ''s0''
   \<and> similar sample_json ([row_s0, row_a1] @ row_bad # [row_b1, row_c1]) ''s0'' 5
       = similar sample_json ([row_s0, row_a1] @ [row_b1, row_c1]) ''s0'' 5"
proof -
  obtain resp where h: "similar sample_json sample_db ''s0'' 5 = Inr resp"
    and n: "sim_moments resp \<noteq> []"
    by (simp add: api_eval sample_eval)
  have b: "candidate_tags sample_json row_bad = None"
    by (simp add: candidate_tags_def sample_eval)
  have i: "col_id row_bad \<noteq> ''s0''"
    by (simp add: sample_eval)
  from n have "hd (sim_moments resp) \<in> set (sim_moments resp)" by simp
  with h b i show ?thesis
    using similar_excludes_source_and_unrelated
      [of sample_json sample_db "''s0''" 5 resp row_bad "[row_s0, row_a1]" "[row_b1, row_c1]"] n
    by blast
qed

text \<open>What a successful answer of \<open>similar\<close> says about the source and the ranking.\<close>

lemma similar_Inr_source:
  assumes "similar J db moment_id limit = Inr r"
  shows "limit_in_bounds limit \<and>
    (\<exists>source. fetch_by_id db moment_id = Some source \<and>
      ((source_without_tags J source \<and> sim_source_tags r = None \<and> sim_moments r = [])
       \<or> (\<exists>v S. \<not> source_without_tags J source \<and> py_set J v = Some S
              \<and> sim_source_tags r = Some v
              \<and> format_moments J (slice_to (ranked_rows J S source db moment_id) limit)
                  = Some (sim_moments r))))"
  using assms
  by (auto simp: similar_def Let_def ranked_rows_def map_slice_to source_without_tags_def
      split: if_splits option.splits)

text \<open>
  Claim C2. An answer of the similarity operation comes about in one of two ways. The
  source carries no tags, and the answer is empty and names no source tags. Or the
  answer is the formatting of the first \<open>limit\<close> rows of a list \<open>ranked\<close>, which holds
  exactly the candidates that share a tag with the source (so the list is cut only
  after it has been sorted), and in which of any two rows \<open>A\<close> before \<open>B\<close>: \<open>A\<close> shares
  more tags with the source than \<open>B\<close>; or both share the same number and \<open>A\<close> has the
  stage of the source while \<open>B\<close> has not; or they tie on both keys and \<open>A\<close> was scanned
  before \<open>B\<close>.
\<close>

theorem similar_ranking:
  assumes "similar J db moment_id limit = Inr resp"
  shows "(\<exists>source. fetch_by_id db moment_id = Some source \<and> source_without_tags J source
            \<and> sim_source_tags resp = None \<and> sim_moments resp = [])
     \<or> (\<exists>source v S ranked.
          fetch_by_id db moment_id = Some source \<and> \<not> source_without_tags J source
        \<and> sim_source_tags resp = Some v \<and> py_set J v = Some S
        \<and> mset ranked = mset (survivors J S db moment_id)
        \<and> format_moments J (take (nat limit) ranked) = Some (sim_moments resp)
        \<and> (\<forall>i j. i < j \<and> j < length ranked \<longrightarrow>
              overlap J S (ranked ! j) < overlap J S (ranked ! i)
            \<or> (overlap J S (ranked ! i) = overlap J S (ranked ! j)
                \<and> col_stage (ranked ! i) = col_stage source
                \<and> col_stage (ranked ! j) \<noteq> col_stage source)
            \<or> (overlap J S (ranked ! i) = overlap J S (ranked ! j)
                \<and> (col_stage (ranked ! i) = col_stage source
                     \<longleftrightarrow> col_stage (ranked ! j) = col_stage source)
                \<and> before db (ranked ! i) (ranked ! j))))"
proof -
  from similar_Inr_source [OF assms] obtain source where
    b: "limit_in_bounds limit"
    and s: "fetch_by_id db moment_id = Some source"
    and d: "(source_without_tags J source \<and> sim_source_tags resp = None
               \<and> sim_moments resp = [])
       \<or> (\<exists>v S. \<not> source_without_tags J source \<and> py_set J v = Some S
              \<and> sim_source_tags resp = Some v
              \<and> format_moments J (slice_to (ranked_rows J S source db moment_id) limit)
                  = Some (sim_moments resp))"
    by blast
  from d show ?thesis
  proof (elim disjE exE conjE)
    assume "source_without_tags J source" "sim_source_tags resp = None" "sim_moments resp = []"
    with s show ?thesis by blast
  next
    fix v S
    assume w: "\<not> source_without_tags J source"
      and S: "py_set J v = Some S"
      and v: "sim_source_tags resp = Some v"
      and f: "format_moments J (slice_to (ranked_rows J S source db moment_id) limit)
                = Some (sim_moments resp)"
    define ranked where "ranked = ranked_rows J S source db moment_id"
    have 1: "mset ranked = mset (survivors J S db moment_id)"
      by (simp add: ranked_def mset_ranked_rows)
    have 2: "format_moments J (take (nat limit) ranked) = Some (sim_moments resp)"
      using f by (simp only: ranked_def slice_to_take [OF b])
    have 3: "\<forall>i j. i < j \<and> j < length ranked \<longrightarrow>
              overlap J S (ranked ! j) < overlap J S (ranked ! i)
            \<or> (overlap J S (ranked ! i) = overlap J S (ranked ! j)
                \<and> col_stage (ranked ! i) = col_stage source
                \<and> col_stage (ranked ! j) \<noteq> col_stage source)
            \<or> (overlap J S (ranked ! i) = overlap J S (ranked ! j)
                \<and> (col_stage (ranked ! i) = col_stage source
                     \<longleftrightarrow> col_stage (ranked ! j) = col_stage source)
                \<and> before db (ranked ! i) (ranked ! j))"
      unfolding ranked_def using ranked_rows_order [of _ _ J S source db moment_id] by blast
    from s w v S 1 2 3 show ?thesis by blast
  qed
qed

text \<open>
  In the second sample store four candidates share a tag with the source \<open>s0\<close>. They
  are scanned in the order \<open>d1\<close>, \<open>a1\<close>, \<open>e1\<close>, \<open>b1\<close>; with the limit 2 the answer is \<open>e1\<close>
  (two shared tags), then \<open>a1\<close> (one shared tag, the stage of the source): the first two
  of the ranking, not of the scan.
\<close>

theorem similar_ranking_witness:
  "\<exists>resp source ranked.
      similar sample_json ranking_db ''s0'' 2 = Inr resp
    \<and> map m_id (sim_moments resp) = [''e1'', ''a1'']
    \<and> fetch_by_id ranking_db ''s0'' = Some source
    \<and> mset ranked = mset (survivors sample_json [''pricing'', ''saas''] ranking_db ''s0'')
    \<and> length ranked = 4
    \<and> format_moments sample_json (take (nat 2) ranked) = Some (sim_moments resp)
    \<and> (overlap sample_json [''pricing'', ''saas''] (ranked ! 1)
          < overlap sample_json [''pricing'', ''saas''] (ranked ! 0)
        \<or> (overlap sample_json [''pricing'', ''saas''] (ranked ! 0)
              = overlap sample_json [''pricing'', ''saas''] (ranked ! 1)
            \<and> col_stage (ranked ! 0) = col_stage source
            \<and> col_stage (ranked ! 1) \<noteq> col_stage source)
        \<or> (overlap sample_json [''pricing'', ''saas''] (ranked ! 0)
              = overlap sample_json [''pricing'', ''saas''] (ranked ! 1)
            \<and> (col_stage (ranked ! 0) = col_stage source
                 \<longleftrightarrow> col_stage (ranked ! 1) = col_stage source)
            \<and> before ranking_db (ranked ! 0) (ranked ! 1)))
    \<and> (overlap sample_json [''pricing'', ''saas''] (ranked ! 2)
          < overlap sample_json [''pricing'', ''saas''] (ranked ! 1)
        \<or> (overlap sample_json [''pricing'', ''saas''] (ranked ! 1)
              = overlap sample_json [''pricing'', ''saas''] (ranked ! 2)
            \<and> col_stage (ranked ! 1) = col_stage source
            \<and> col_stage (ranked ! 2) \<noteq> col_stage source)
        \<or> (overlap sample_json [''pricing'', ''saas''] (ranked ! 1)
              = overlap sample_json [''pricing'', ''saas''] (ranked ! 2)
            \<and> (col_stage (ranked ! 1) = col_stage source
                 \<longleftrightarrow> col_stage (ranked ! 2) = col_stage source)
            \<and> before ranking_db (ranked ! 1) (ranked ! 2)))"
proof -
  obtain resp where h: "similar sample_json ranking_db ''s0'' 2 = Inr resp"
    and ids: "map m_id (sim_moments resp) = [''e1'', ''a1'']"
    and t: "sim_source_tags resp = Some [''pricing'', ''saas'']"
    by (simp add: api_eval sample_eval ranking_db_def row_d1_def row_e1_def)
  from similar_ranking [OF h] t obtain source v S ranked where
    s: "fetch_by_id ranking_db ''s0'' = Some source"
    and v: "sim_source_tags resp = Some v" and S: "py_set sample_json v = Some S"
    and m: "mset ranked = mset (survivors sample_json S ranking_db ''s0'')"
    and f: "format_moments sample_json (take (nat 2) ranked) = Some (sim_moments resp)"
    and o: "\<forall>i j. i < j \<and> j < length ranked \<longrightarrow>
              overlap sample_json S (ranked ! j) < overlap sample_json S (ranked ! i)
            \<or> (overlap sample_json S (ranked ! i) = overlap sample_json S (ranked ! j)
                \<and> col_stage (ranked ! i) = col_stage source
                \<and> col_stage (ranked ! j) \<noteq> col_stage source)
            \<or> (overlap sample_json S (ranked ! i) = overlap sample_json S (ranked ! j)
                \<and> (col_stage (ranked ! i) = col_stage source
                     \<longleftrightarrow> col_stage (ranked ! j) = col_stage source)
                \<and> before ranking_db (ranked ! i) (ranked ! j))"
    by auto
  from t v S have S': "S = [''pricing'', ''saas'']"
    by (simp add: sample_json_def)
  have "survivors sample_json [''pricing'', ''saas''] ranking_db ''s0''
          = [row_d1, row_a1, row_e1, row_b1]"
    by (simp add: survivors_def overlap_def api_eval sample_eval ranking_db_def row_d1_def
        row_e1_def)
  with m S' have "size (mset ranked) = 4" by simp
  then have l: "length ranked = 4" by simp
  then have l01: "(0::nat) < 1 \<and> 1 < length ranked"
    and l12: "(1::nat) < 2 \<and> 2 < length ranked"
    by simp_all
  from o l01 have p01: "overlap sample_json S (ranked ! 1) < overlap sample_json S (ranked ! 0)
            \<or> (overlap sample_json S (ranked ! 0) = overlap sample_json S (ranked ! 1)
                \<and> col_stage (ranked ! 0) = col_stage source
                \<and> col_stage (ranked ! 1) \<noteq> col_stage source)
            \<or> (overlap sample_json S (ranked ! 0) = overlap sample_json S (ranked ! 1)
                \<and> (col_stage (ranked ! 0) = col_stage source
                     \<longleftrightarrow> col_stage (ranked ! 1) = col_stage source)
                \<and> before ranking_db (ranked ! 0) (ranked ! 1))"
    by blast
  from o l12 have p12: "overlap sample_json S (ranked ! 2) < overlap sample_json S (ranked ! 1)
            \<or> (overlap sample_json S (ranked ! 1) = overlap sample_json S (ranked ! 2)
                \<and> col_stage (ranked ! 1) = col_stage source
                \<and> col_stage (ranked ! 2) \<noteq> col_stage source)
            \<or> (overlap sample_json S (ranked ! 1) = overlap sample_json S (ranked ! 2)
                \<and> (col_stage (ranked ! 1) = col_stage source
                     \<longleftrightarrow> col_stage (ranked ! 2) = col_stage source)
                \<and> before ranking_db (ranked ! 1) (ranked ! 2))"
    by blast
  from h ids s m f l p01 p12 show ?thesis
    unfolding S' by - (intro exI conjI, assumption+)
qed

end
